theory Spec2Isabelle
  imports Main
begin

section \<open>Python values used by ann.py\<close>

text \<open>
  Python strings are modelled as \<open>string\<close>: the UTF-8 bytes of the text. Every character
  the program tests for (the separators of a date, the characters removed from a file name,
  the path separator) is ASCII, and an ASCII byte never occurs inside the encoding of
  another code point, so tests and removals on bytes agree with those on code points.

  An exception a function lets escape is a value: results are \<open>py_exception + 'a\<close>.
  \<open>Exception t\<close> stands for an instance of \<open>Exception\<close> (or of a subclass the program
  does not tell apart) whose \<open>str()\<close> is \<open>t\<close>; \<open>ValueError\<close> and \<open>OverflowError\<close> are
  the two classes the interpreter raises inside \<open>generate_yearly_date_ranges\<close>.
\<close>

datatype py_exception = Exception string | ValueError | OverflowError

section \<open>clean_filename\<close>

text \<open>
  \<^verbatim>\<open>re.sub(r'[\\/*?:"<>|]', "", filename)\<close>: the pattern is one character class, so the
  substitution scans the text from left to right and drops each character of the class.
  The class holds backslash, slash, star, question mark, colon, double quote, less-than,
  greater-than and the vertical bar.
\<close>

definition illegal_chars :: "char set" where
  "illegal_chars =
     {CHR 0x5C, CHR ''/'', CHR ''*'', CHR ''?'', CHR '':'', CHR 0x22, CHR ''<'', CHR ''>'', CHR ''|''}"

fun clean_filename :: "string \<Rightarrow> string" where
  "clean_filename [] = []"
| "clean_filename (c # cs) =
     (if c \<in> illegal_chars then clean_filename cs else c # clean_filename cs)"

section \<open>Dates\<close>

text \<open>
  A \<open>datetime\<close> at midnight: year, month and day. Python keeps only valid dates, with
  \<open>MINYEAR = 1\<close> and \<open>MAXYEAR = 9999\<close>; constructing any other raises \<open>ValueError\<close>, and an
  addition that leaves the range raises \<open>OverflowError\<close>.
\<close>

record date =
  year :: nat
  month :: nat
  day :: nat

definition is_leap :: "nat \<Rightarrow> bool" where
  "is_leap y = (y mod 4 = 0 \<and> (y mod 100 \<noteq> 0 \<or> y mod 400 = 0))"

definition days_in_month :: "nat \<Rightarrow> nat \<Rightarrow> nat" where
  "days_in_month y m =
     (if m = 2 then (if is_leap y then 29 else 28)
      else if m = 4 \<or> m = 6 \<or> m = 9 \<or> m = 11 then 30 else 31)"

definition valid_date :: "date \<Rightarrow> bool" where
  "valid_date d =
     (1 \<le> year d \<and> year d \<le> 9999 \<and> 1 \<le> month d \<and> month d \<le> 12 \<and>
      1 \<le> day d \<and> day d \<le> days_in_month (year d) (month d))"

text \<open>\<open>datetime(y, m, d)\<close>\<close>

definition datetime :: "nat \<Rightarrow> nat \<Rightarrow> nat \<Rightarrow> py_exception + date" where
  "datetime y m d =
     (let r = \<lparr>year = y, month = m, day = d\<rparr>
      in if valid_date r then Inr r else Inl ValueError)"

text \<open>The comparisons \<open><=\<close> and \<open><\<close> of two datetimes, and \<open>min\<close> (the first argument on a tie).\<close>

definition date_le :: "date \<Rightarrow> date \<Rightarrow> bool" where
  "date_le a b =
     (year a < year b \<or>
      (year a = year b \<and> (month a < month b \<or> (month a = month b \<and> day a \<le> day b))))"

definition date_less :: "date \<Rightarrow> date \<Rightarrow> bool" where
  "date_less a b = (date_le a b \<and> a \<noteq> b)"

definition date_min :: "date \<Rightarrow> date \<Rightarrow> date" where
  "date_min a b = (if date_less b a then b else a)"

text \<open>\<open>d + timedelta(days=1)\<close>\<close>

definition add_one_day :: "date \<Rightarrow> py_exception + date" where
  "add_one_day d =
     (if day d < days_in_month (year d) (month d) then Inr (d\<lparr>day := day d + 1\<rparr>)
      else if month d < 12 then Inr (d\<lparr>month := month d + 1, day := 1\<rparr>)
      else if year d < 9999 then Inr \<lparr>year = year d + 1, month = 1, day = 1\<rparr>
      else Inl OverflowError)"

subsection \<open>strptime and strftime with the format %Y-%m-%d\<close>

definition is_digit :: "char \<Rightarrow> bool" where
  "is_digit c = (c \<in> set ''0123456789'')"

definition digit_val :: "char \<Rightarrow> nat" where
  "digit_val c = of_char c - 48"

definition digit_char :: "nat \<Rightarrow> char" where
  "digit_char n = char_of (48 + n mod 10)"

text \<open>\<open>str(n)\<close> of a natural number.\<close>

fun str_nat :: "nat \<Rightarrow> string" where
  "str_nat n = (if n < 10 then [digit_char n] else str_nat (n div 10) @ [digit_char n])"

declare str_nat.simps [simp del]

text \<open>
  \<open>%m\<close> is the pattern \<^verbatim>\<open>1[0-2]|0[1-9]|[1-9]\<close> and \<open>%d\<close> is
  \<^verbatim>\<open>3[0-1]|[1-2]\d|0[1-9]|[1-9]| [1-9]\<close>; the alternatives are tried in this order.
  Each parser returns the number read and the text left.
\<close>

fun parse_month :: "string \<Rightarrow> (nat \<times> string) option" where
  "parse_month (a # b # r) =
     (if a = CHR ''1'' \<and> b \<in> set ''012'' then Some (10 + digit_val b, r)
      else if a = CHR ''0'' \<and> b \<in> set ''123456789'' then Some (digit_val b, r)
      else if a \<in> set ''123456789'' then Some (digit_val a, b # r)
      else None)"
| "parse_month [a] = (if a \<in> set ''123456789'' then Some (digit_val a, []) else None)"
| "parse_month [] = None"

fun parse_day :: "string \<Rightarrow> (nat \<times> string) option" where
  "parse_day (a # b # r) =
     (if a = CHR ''3'' \<and> b \<in> set ''01'' then Some (30 + digit_val b, r)
      else if a \<in> set ''12'' \<and> is_digit b then Some (10 * digit_val a + digit_val b, r)
      else if a = CHR ''0'' \<and> b \<in> set ''123456789'' then Some (digit_val b, r)
      else if a \<in> set ''123456789'' then Some (digit_val a, b # r)
      else if a = CHR '' '' \<and> b \<in> set ''123456789'' then Some (digit_val b, r)
      else None)"
| "parse_day [a] = (if a \<in> set ''123456789'' then Some (digit_val a, []) else None)"
| "parse_day [] = None"

text \<open>
  \<open>datetime.strptime(s, "%Y-%m-%d")\<close>: four digits, a dash, a month, a dash, a day and
  nothing after it; then the date is constructed. Every failure is a \<open>ValueError\<close>.
  The digits are the ASCII digits: Python also reads other Unicode decimal digits, and on
  such a string the model raises where Python parses.
\<close>

definition strptime :: "string \<Rightarrow> py_exception + date" where
  "strptime s =
     (case s of
        y1 # y2 # y3 # y4 # dash1 # rest \<Rightarrow>
          if is_digit y1 \<and> is_digit y2 \<and> is_digit y3 \<and> is_digit y4 \<and> dash1 = CHR ''-'' then
            (case parse_month rest of
               Some (m, dash2 # rest') \<Rightarrow>
                 if dash2 = CHR ''-'' then
                   (case parse_day rest' of
                      Some (d, []) \<Rightarrow>
                        datetime (1000 * digit_val y1 + 100 * digit_val y2
                                  + 10 * digit_val y3 + digit_val y4) m d
                    | _ \<Rightarrow> Inl ValueError)
                 else Inl ValueError
             | _ \<Rightarrow> Inl ValueError)
          else Inl ValueError
      | _ \<Rightarrow> Inl ValueError)"

text \<open>
  \<open>d.strftime("%Y-%m-%d")\<close>: the year, then month and day on two digits each. The C
  library formats \<open>%Y\<close>, and glibc prints the year without padding (999 for the year 999),
  which the model follows; from the year 1000 on the year has its four digits.
\<close>

definition strftime :: "date \<Rightarrow> string" where
  "strftime d =
     str_nat (year d)
     @ [CHR ''-'', digit_char (month d div 10), digit_char (month d), CHR ''-'',
        digit_char (day d div 10), digit_char (day d)]"

section \<open>generate_yearly_date_ranges\<close>

text \<open>
  The \<open>while\<close> loop, on the state \<open>(current_start, ranges)\<close>. Each pass appends the pair of
  formatted dates and moves \<open>current_start\<close> to the day after the year's end.
\<close>

function yearly_loop ::
  "date \<Rightarrow> date \<Rightarrow> (string \<times> string) list \<Rightarrow> py_exception + (string \<times> string) list" where
  "yearly_loop current_start end_date ranges =
     (if date_le current_start end_date then
        (case datetime (year current_start) 12 31 of
           Inl e \<Rightarrow> Inl e
         | Inr year_end \<Rightarrow>
             (case add_one_day year_end of
                Inl e \<Rightarrow> Inl e
              | Inr next_start \<Rightarrow>
                  yearly_loop next_start end_date
                    (ranges @ [(strftime current_start,
                                strftime (date_min year_end end_date))])))
      else Inr ranges)"
  by pat_completeness auto
termination
proof (relation "measure (\<lambda>(current_start, end_date, ranges). 10000 - year current_start)")
  show "wf (measure (\<lambda>(current_start, end_date, ranges). 10000 - year current_start))"
    by simp
next
  fix current_start end_date :: date and ranges :: "(string \<times> string) list"
    and year_end next_start :: date
  assume ye: "datetime (year current_start) 12 31 = Inr year_end"
    and nx: "add_one_day year_end = Inr next_start"
  from ye have y: "year_end = \<lparr>year = year current_start, month = 12, day = 31\<rparr>"
    by (auto simp: datetime_def Let_def split: if_splits)
  from nx y have "year current_start < 9999 \<and> year next_start = year current_start + 1"
    by (auto simp: add_one_day_def days_in_month_def split: if_splits)
  then show "((next_start, end_date,
                ranges @ [(strftime current_start, strftime (date_min year_end end_date))]),
               (current_start, end_date, ranges))
             \<in> measure (\<lambda>(current_start, end_date, ranges). 10000 - year current_start)"
    by auto
qed

declare yearly_loop.simps [simp del]

definition generate_yearly_date_ranges ::
  "string \<Rightarrow> string \<Rightarrow> py_exception + (string \<times> string) list" where
  "generate_yearly_date_ranges start_date_str end_date_str =
     (case strptime start_date_str of
        Inl e \<Rightarrow> Inl e
      | Inr start_date \<Rightarrow>
          (case strptime end_date_str of
             Inl e \<Rightarrow> Inl e
           | Inr end_date \<Rightarrow> yearly_loop start_date end_date []))"

section \<open>Effects\<close>

text \<open>
  \<open>None\<close>, or a string: the values the program reads from an item and puts into the
  \<open>TITLE\<close> parameter. A JSON \<open>null\<close> is Python's \<open>None\<close>.
\<close>

datatype pyval = PyNone | PyStr string

text \<open>Truthiness (\<open>if v\<close>) and \<open>str(v)\<close>, as an f-string formats a value.\<close>

fun truthy :: "pyval \<Rightarrow> bool" where
  "truthy PyNone = False"
| "truthy (PyStr s) = (s \<noteq> [])"

fun py_str :: "pyval \<Rightarrow> string" where
  "py_str PyNone = ''None''"
| "py_str (PyStr s) = s"

text \<open>The query parameters of one request to the listing endpoint (the dict \<open>params\<close>).\<close>

record params =
  isPagination :: string
  pageSize :: nat
  cacheSize :: nat
  START_DATE :: string
  END_DATE :: string
  SECURITY_CODE :: string
  beginPage :: nat
  pageNo :: nat
  TITLE :: pyval

text \<open>
  The calls the program makes to the outside world, in the order it makes them. A call
  is recorded when it is made, whatever its outcome. \<open>Sleep\<close> counts milliseconds.
  \<open>PrintFatal e\<close> is the line the top level prints for an exception \<open>e\<close> it caught (a fixed
  prefix, then \<open>str(e)\<close>: the interpreter's wording for its own exceptions is not part of
  the program).
\<close>

datatype event =
    Print string
  | PrintFatal py_exception
  | Sleep nat
  | ApiGet string params
  | ChromeStart
  | DriverGet string
  | GetCookies
  | DownloadGet string "(string \<times> string) list" "(string \<times> string) list"
  | MakeDirs string
  | OpenWrite string
  | WriteChunk string string
  | CloseFile string
  | DriverQuit

text \<open>What a call to the outside world does: it returns, or raises an exception with a text.\<close>

datatype 'a outcome = Returns 'a | Raises string

section \<open>fetch_all_announcements_paginated\<close>

text \<open>
  A response body of the listing endpoint, at the shape it documents:
  \<^verbatim>\<open>{"pageHelp": {"data": [[item, ...], ...]}}\<close>, each item a dict whose values are strings or
  \<open>null\<close>. Either key may be missing (\<open>.get\<close> then takes its default), and \<open>data\<close> may be
  \<open>null\<close>.
\<close>

type_synonym item = "string \<rightharpoonup> pyval"

type_synonym body = "string \<rightharpoonup> (string \<rightharpoonup> item list list option)"

text \<open>
  What one \<open>session.get\<close> with \<open>raise_for_status\<close> and \<open>response.json()\<close> comes to:
  a \<open>RequestException\<close> with its text (from the request or from the status check), a
  \<open>JSONDecodeError\<close>, or the decoded body.
\<close>

datatype response = RequestException string | JSONDecodeError | Json body

record announcement =
  title :: string
  url :: string

definition base_url :: string where
  "base_url = ''https://query.sse.com.cn/security/stock/queryCompanyBulletinNew.do''"

definition static_host :: string where
  "static_host = ''https://static.sse.com.cn''"

text \<open>\<open>d.get(k)\<close> on an item: \<open>None\<close> when the key is missing.\<close>

definition item_get :: "item \<Rightarrow> string \<Rightarrow> pyval" where
  "item_get it k = (case it k of None \<Rightarrow> PyNone | Some v \<Rightarrow> v)"

text \<open>\<open>data.get('pageHelp', {}).get('data', [])\<close>; \<open>None\<close> is a \<open>null\<close> payload.\<close>

definition current_page_data_of :: "body \<Rightarrow> item list list option" where
  "current_page_data_of data =
     (case data ''pageHelp'' of
        None \<Rightarrow> Some []
      | Some page_help \<Rightarrow> (case page_help ''data'' of None \<Rightarrow> Some [] | Some d \<Rightarrow> d))"

text \<open>\<open>not current_page_data\<close>: \<open>None\<close> and the empty list are falsy.\<close>

definition payload_empty :: "item list list option \<Rightarrow> bool" where
  "payload_empty d = (case d of None \<Rightarrow> True | Some xs \<Rightarrow> xs = [])"

text \<open>The lists a non-empty payload holds, which \<open>for inner_list in current_page_data\<close> visits.\<close>

definition inner_lists :: "item list list option \<Rightarrow> item list list" where
  "inner_lists d = (case d of None \<Rightarrow> [] | Some xs \<Rightarrow> xs)"

text \<open>
  The two nested \<open>for\<close> loops over a page. They assign the loop variable \<open>title\<close>, which is
  also the function's parameter \<open>title\<close>: the state of the loops is the pair of that
  variable and \<open>announcements_on_page\<close>.
\<close>

fun item_step :: "item \<Rightarrow> pyval \<times> announcement list \<Rightarrow> pyval \<times> announcement list" where
  "item_step it (title_var, announcements_on_page) =
     (let title' = item_get it ''TITLE'';
          url_path = item_get it ''URL''
      in if truthy title' \<and> truthy url_path
         then (title', announcements_on_page
                        @ [\<lparr>title = py_str title', url = static_host @ py_str url_path\<rparr>])
         else (title', announcements_on_page))"

fun inner_loop :: "item list \<Rightarrow> pyval \<times> announcement list \<Rightarrow> pyval \<times> announcement list" where
  "inner_loop [] st = st"
| "inner_loop (it # inner_list) st = inner_loop inner_list (item_step it st)"

fun page_loop :: "item list list \<Rightarrow> pyval \<times> announcement list \<Rightarrow> pyval \<times> announcement list" where
  "page_loop [] st = st"
| "page_loop (inner_list # current_page_data) st =
     page_loop current_page_data (inner_loop inner_list st)"

text \<open>"error: cannot parse page"\<close>

definition json_error_text_1 :: string where
  "json_error_text_1 =
     [CHR 0xE9, CHR 0x94, CHR 0x99, CHR 0xE8, CHR 0xAF, CHR 0xAF]
     @ '': ''
     @ [CHR 0xE6, CHR 0x97, CHR 0xA0, CHR 0xE6, CHR 0xB3, CHR 0x95, CHR 0xE8, CHR 0xA7,
      CHR 0xA3, CHR 0xE6, CHR 0x9E, CHR 0x90, CHR 0xE7, CHR 0xAC, CHR 0xAC]
     @ '' ''"

text \<open>"'s JSON response; this page is skipped"\<close>

definition json_error_text_2 :: string where
  "json_error_text_2 =
     '' ''
     @ [CHR 0xE9, CHR 0xA1, CHR 0xB5, CHR 0xE7, CHR 0x9A, CHR 0x84]
     @ ''JSON''
     @ [CHR 0xE5, CHR 0x93, CHR 0x8D, CHR 0xE5, CHR 0xBA, CHR 0x94, CHR 0xE3, CHR 0x80,
      CHR 0x82, CHR 0xE8, CHR 0xB7, CHR 0xB3, CHR 0xE8, CHR 0xBF, CHR 0x87, CHR 0xE6,
      CHR 0xAD, CHR 0xA4, CHR 0xE9, CHR 0xA1, CHR 0xB5, CHR 0xE3, CHR 0x80, CHR 0x82]"

text \<open>"requesting page"\<close>

definition request_error_text_1 :: string where
  "request_error_text_1 =
     [CHR 0xE8, CHR 0xAF, CHR 0xB7, CHR 0xE6, CHR 0xB1, CHR 0x82, CHR 0xE7, CHR 0xAC, CHR 0xAC]
     @ '' ''"

text \<open>": an error occurred:"\<close>

definition request_error_text_2 :: string where
  "request_error_text_2 =
     '' ''
     @ [CHR 0xE9, CHR 0xA1, CHR 0xB5, CHR 0xE6, CHR 0x97, CHR 0xB6, CHR 0xE5, CHR 0x8F,
      CHR 0x91, CHR 0xE7, CHR 0x94, CHR 0x9F, CHR 0xE9, CHR 0x94, CHR 0x99, CHR 0xE8,
      CHR 0xAF, CHR 0xAF]
     @ '': ''"

text \<open>"; retrying later"\<close>

definition request_error_text_3 :: string where
  "request_error_text_3 =
     [CHR 0xE3, CHR 0x80, CHR 0x82, CHR 0xE7, CHR 0xA8, CHR 0x8D, CHR 0xE5, CHR 0x90,
      CHR 0x8E, CHR 0xE9, CHR 0x87, CHR 0x8D, CHR 0xE8, CHR 0xAF, CHR 0x95]
     @ ''...''"

text \<open>The two lines the loop prints.\<close>

definition json_error_line :: "nat \<Rightarrow> string" where
  "json_error_line page_num = json_error_text_1 @ str_nat page_num @ json_error_text_2"

definition request_error_line :: "nat \<Rightarrow> string \<Rightarrow> string" where
  "request_error_line page_num e =
     request_error_text_1 @ str_nat page_num @ request_error_text_2 @ e @ request_error_text_3"

text \<open>
  The variables of the \<open>while True\<close> loop, the number of requests sent so far and the calls
  made so far.
\<close>

record fetch_state =
  all_announcements :: "announcement list"
  page_num :: nat
  title_var :: pyval
  sent :: nat
  trace :: "event list"

datatype 'a control = Continue 'a | Break 'a

definition make_params :: "string \<Rightarrow> string \<Rightarrow> string \<Rightarrow> fetch_state \<Rightarrow> params" where
  "make_params security_code start_date end_date st =
     \<lparr>isPagination = ''true'', pageSize = 100, cacheSize = 1,
      START_DATE = start_date, END_DATE = end_date, SECURITY_CODE = security_code,
      beginPage = page_num st, pageNo = page_num st, TITLE = title_var st\<rparr>"

text \<open>
  One pass of the loop body: the request is sent, and \<open>r\<close> is what comes back.
\<close>

definition fetch_iteration ::
  "string \<Rightarrow> string \<Rightarrow> string \<Rightarrow> response \<Rightarrow> fetch_state \<Rightarrow> fetch_state control" where
  "fetch_iteration security_code start_date end_date r st =
     (let st1 = st\<lparr>sent := sent st + 1,
                    trace := trace st
                      @ [ApiGet base_url (make_params security_code start_date end_date st)]\<rparr>
      in case r of
           RequestException e \<Rightarrow>
             Continue (st1\<lparr>trace := trace st1
                              @ [Print (request_error_line (page_num st1) e), Sleep 2000]\<rparr>)
         | JSONDecodeError \<Rightarrow>
             Continue (st1\<lparr>page_num := page_num st1 + 1,
                           trace := trace st1 @ [Print (json_error_line (page_num st1))]\<rparr>)
         | Json data \<Rightarrow>
             (let current_page_data = current_page_data_of data
              in if payload_empty current_page_data then Break st1
                 else
                   (let (title', announcements_on_page) =
                          page_loop (inner_lists current_page_data) (title_var st1, [])
                    in Continue (st1\<lparr>all_announcements :=
                                        all_announcements st1 @ announcements_on_page,
                                      page_num := page_num st1 + 1,
                                      title_var := title',
                                      trace := trace st1 @ [Sleep 500]\<rparr>))))"

text \<open>
  The loop. It has no bound of its own, so the model takes fuel: \<open>None\<close> says that the loop
  was still running when the fuel ran out. \<open>session n\<close> is the outcome of the request sent
  after \<open>n\<close> earlier ones.
\<close>

fun fetch_loop ::
  "nat \<Rightarrow> (nat \<Rightarrow> response) \<Rightarrow> string \<Rightarrow> string \<Rightarrow> string \<Rightarrow> fetch_state \<Rightarrow> fetch_state option"
where
  "fetch_loop 0 session security_code start_date end_date st = None"
| "fetch_loop (Suc fuel) session security_code start_date end_date st =
     (case fetch_iteration security_code start_date end_date (session (sent st)) st of
        Break st' \<Rightarrow> Some st'
      | Continue st' \<Rightarrow> fetch_loop fuel session security_code start_date end_date st')"

definition fetch_start :: "string \<Rightarrow> fetch_state" where
  "fetch_start title_arg =
     \<lparr>all_announcements = [], page_num = 1, title_var = PyStr title_arg, sent = 0, trace = []\<rparr>"

text \<open>
  \<open>fetch_all_announcements_paginated(session, security_code, start_date, end_date, title)\<close>:
  the final state of the loop, which holds the list returned (\<open>all_announcements\<close>), the
  requests sent and the calls made.
\<close>

definition fetch_all_announcements_paginated ::
  "nat \<Rightarrow> (nat \<Rightarrow> response) \<Rightarrow> string \<Rightarrow> string \<Rightarrow> string \<Rightarrow> string \<Rightarrow> fetch_state option"
where
  "fetch_all_announcements_paginated fuel session security_code start_date end_date title_arg =
     fetch_loop fuel session security_code start_date end_date (fetch_start title_arg)"

section \<open>Paths\<close>

text \<open>
  \<open>os.path.join(a, b)\<close> and \<open>os.path.basename(p)\<close>, as \<open>posixpath\<close> defines them: the separator
  is the slash.
\<close>

definition path_join :: "string \<Rightarrow> string \<Rightarrow> string" where
  "path_join a b =
     (if b \<noteq> [] \<and> hd b = CHR ''/'' then b
      else if a = [] \<or> last a = CHR ''/'' then a @ b
      else a @ ''/'' @ b)"

definition basename :: "string \<Rightarrow> string" where
  "basename p = rev (takeWhile (\<lambda>c. c \<noteq> CHR ''/'') (rev p))"

section \<open>download_pdf_hybrid\<close>

text \<open>
  What the outside world does during one call: the navigation, the cookies the browser
  reports (name and value of each), the answer to the streamed GET (the final response,
  after any redirect: its status code, reason phrase, address and body), the opening of the
  file, and each write to it by its number. The body of a response arrives in steps: each
  step of \<open>iter_content\<close> hands over a chunk or raises.
\<close>

record http_response =
  status_code :: nat
  reason_phrase :: string
  final_url :: string
  chunks :: "string outcome list"

record download_world =
  navigate :: "unit outcome"
  browser_cookies :: "(string \<times> string) list outcome"
  http_get :: "http_response outcome"
  file_open :: "unit outcome"
  file_write :: "nat \<Rightarrow> unit outcome"

definition user_agent :: string where
  "user_agent = ''Mozilla/5.0 (Windows NT 10.0; Win64; x64) AppleWebKit/537.36 (KHTML, like Gecko) Chrome/91.0.4472.124 Safari/537.36''"

definition download_headers :: "(string \<times> string) list" where
  "download_headers = [(''User-Agent'', user_agent), (''Referer'', ''https://www.sse.com.cn/'')]"

text \<open>
  \<open>response.raise_for_status()\<close> of the requests library: it raises an \<open>HTTPError\<close> for a
  status from 400 to 599, with the text built here, and returns for every other status.
\<close>

definition raise_for_status :: "http_response \<Rightarrow> unit outcome" where
  "raise_for_status r =
     (if 400 \<le> status_code r \<and> status_code r < 500 then
        Raises (str_nat (status_code r) @ '' Client Error: '' @ reason_phrase r
                @ '' for url: '' @ final_url r)
      else if 500 \<le> status_code r \<and> status_code r < 600 then
        Raises (str_nat (status_code r) @ '' Server Error: '' @ reason_phrase r
                @ '' for url: '' @ final_url r)
      else Returns ())"

text \<open>
  \<open>session.cookies.set(name, value)\<close> on the jar of a new session: a cookie of the same
  name is replaced where it stands, another name is added at the end. \<open>jar_of\<close> is the jar
  after the \<open>for cookie in cookies\<close> loop.
\<close>

fun cookies_set :: "string \<Rightarrow> string \<Rightarrow> (string \<times> string) list \<Rightarrow> (string \<times> string) list" where
  "cookies_set name v [] = [(name, v)]"
| "cookies_set name v ((n, x) # jar) =
     (if n = name then (n, v) # jar else (n, x) # cookies_set name v jar)"

fun jar_loop :: "(string \<times> string) list \<Rightarrow> (string \<times> string) list \<Rightarrow> (string \<times> string) list" where
  "jar_loop [] jar = jar"
| "jar_loop ((name, v) # cookies) jar = jar_loop cookies (cookies_set name v jar)"

definition jar_of :: "(string \<times> string) list \<Rightarrow> (string \<times> string) list" where
  "jar_of cookies = jar_loop cookies []"

text \<open>"cannot get a cookie from the browser; the download may be blocked"\<close>

definition no_cookie_text :: string where
  "no_cookie_text =
     [CHR 0xE6, CHR 0x97, CHR 0xA0, CHR 0xE6, CHR 0xB3, CHR 0x95, CHR 0xE4, CHR 0xBB,
      CHR 0x8E, CHR 0xE6, CHR 0xB5, CHR 0x8F, CHR 0xE8, CHR 0xA7, CHR 0x88, CHR 0xE5,
      CHR 0x99, CHR 0xA8, CHR 0xE8, CHR 0x8E, CHR 0xB7, CHR 0xE5, CHR 0x8F, CHR 0x96]
     @ ''Cookie''
     @ [CHR 0xEF, CHR 0xBC, CHR 0x8C, CHR 0xE4, CHR 0xB8, CHR 0x8B, CHR 0xE8, CHR 0xBD,
      CHR 0xBD, CHR 0xE5, CHR 0x8F, CHR 0xAF, CHR 0xE8, CHR 0x83, CHR 0xBD, CHR 0xE8,
      CHR 0xA2, CHR 0xAB, CHR 0xE6, CHR 0x8B, CHR 0xA6, CHR 0xE6, CHR 0x88, CHR 0xAA,
      CHR 0xE3, CHR 0x80, CHR 0x82]"

text \<open>"downloaded:"\<close>

definition success_text :: string where
  "success_text =
     [CHR 0xE6, CHR 0x88, CHR 0x90, CHR 0xE5, CHR 0x8A, CHR 0x9F, CHR 0xE4, CHR 0xB8,
      CHR 0x8B, CHR 0xE8, CHR 0xBD, CHR 0xBD]
     @ '': ''"

text \<open>"download failed:"\<close>

definition failure_text :: string where
  "failure_text =
     [CHR 0xE4, CHR 0xB8, CHR 0x8B, CHR 0xE8, CHR 0xBD, CHR 0xBD, CHR 0xE5, CHR 0xA4,
      CHR 0xB1, CHR 0xE8, CHR 0xB4, CHR 0xA5]
     @ '': ''"

text \<open>", reason:"\<close>

definition reason_text :: string where
  "reason_text =
     '', ''
     @ [CHR 0xE5, CHR 0x8E, CHR 0x9F, CHR 0xE5, CHR 0x9B, CHR 0xA0]
     @ '': ''"

text \<open>
  \<^verbatim>\<open>for chunk in response.iter_content(chunk_size=8192): f.write(chunk)\<close>, from the write
  numbered \<open>n\<close> on: the calls made, and how the loop ended.
\<close>

fun write_loop ::
  "string \<Rightarrow> (nat \<Rightarrow> unit outcome) \<Rightarrow> nat \<Rightarrow> string outcome list \<Rightarrow> event list \<times> unit outcome"
where
  "write_loop filepath wr n [] = ([], Returns ())"
| "write_loop filepath wr n (Raises t # rest) = ([], Raises t)"
| "write_loop filepath wr n (Returns chunk # rest) =
     (case wr n of
        Raises t \<Rightarrow> ([WriteChunk filepath chunk], Raises t)
      | Returns _ \<Rightarrow>
          (let (ev, r) = write_loop filepath wr (n + 1) rest
           in (WriteChunk filepath chunk # ev, r)))"

text \<open>
  The body of the \<open>try\<close>: the calls made, and whether it ran to its end or raised. The
  \<open>with\<close> block closes the file however the loop in it ends.
\<close>

definition download_try :: "download_world \<Rightarrow> string \<Rightarrow> string \<Rightarrow> event list \<times> unit outcome" where
  "download_try w url_arg filepath =
     (case navigate w of
        Raises t \<Rightarrow> ([DriverGet url_arg], Raises t)
      | Returns _ \<Rightarrow>
     (case browser_cookies w of
        Raises t \<Rightarrow> ([DriverGet url_arg, Sleep 0, GetCookies], Raises t)
      | Returns cookies \<Rightarrow>
     if cookies = [] then ([DriverGet url_arg, Sleep 0, GetCookies], Raises no_cookie_text)
     else
     (let sent_get = [DriverGet url_arg, Sleep 0, GetCookies,
                      DownloadGet url_arg (jar_of cookies) download_headers]
      in case http_get w of
        Raises t \<Rightarrow> (sent_get, Raises t)
      | Returns response \<Rightarrow>
     (case raise_for_status response of
        Raises t \<Rightarrow> (sent_get, Raises t)
      | Returns _ \<Rightarrow>
     (case file_open w of
        Raises t \<Rightarrow> (sent_get @ [OpenWrite filepath], Raises t)
      | Returns _ \<Rightarrow>
          (let (ev, r) = write_loop filepath (file_write w) 0 (chunks response)
           in (sent_get @ [OpenWrite filepath] @ ev @ [CloseFile filepath], r)))))))"

text \<open>
  \<open>download_pdf_hybrid(driver, url, filepath)\<close>: the calls made and the string returned.
  The \<open>except Exception as e\<close> clause turns whatever the body raised into the second
  string.
\<close>

definition success_result :: "string \<Rightarrow> string" where
  "success_result filepath = success_text @ basename filepath"

definition failure_result :: "string \<Rightarrow> string \<Rightarrow> string" where
  "failure_result filepath e = failure_text @ basename filepath @ reason_text @ e"

definition download_pdf_hybrid :: "download_world \<Rightarrow> string \<Rightarrow> string \<Rightarrow> event list \<times> string" where
  "download_pdf_hybrid w url_arg filepath =
     (let (ev, r) = download_try w url_arg filepath
      in (ev, case r of
                Returns _ \<Rightarrow> success_result filepath
              | Raises e \<Rightarrow> failure_result filepath e))"

section \<open>batch_download_sequential\<close>

text \<open>
  The outside world of a whole run: the start of the browser, the first navigation and the
  cookies after it, the listing endpoint's answers by request number, \<open>os.makedirs\<close>,
  \<open>os.path.abspath\<close> (it depends on the working directory), and the world of each download
  by its number.
\<close>

record world =
  chrome :: "unit outcome"
  entry_navigate :: "unit outcome"
  entry_cookies :: "(string \<times> string) list outcome"
  listing_api :: "nat \<Rightarrow> response"
  makedirs :: "unit outcome"
  abspath :: "string \<Rightarrow> string"
  downloads :: "nat \<Rightarrow> download_world"

text \<open>"there is no announcement to download"\<close>

definition nothing_to_download_text :: string where
  "nothing_to_download_text =
     [CHR 0xE6, CHR 0xB2, CHR 0xA1, CHR 0xE6, CHR 0x9C, CHR 0x89, CHR 0xE5, CHR 0x8F,
      CHR 0xAF, CHR 0xE4, CHR 0xB8, CHR 0x8B, CHR 0xE8, CHR 0xBD, CHR 0xBD, CHR 0xE7,
      CHR 0x9A, CHR 0x84, CHR 0xE5, CHR 0x85, CHR 0xAC, CHR 0xE5, CHR 0x91, CHR 0x8A,
      CHR 0xE3, CHR 0x80, CHR 0x82]"

text \<open>"files will be saved to:"\<close>

definition saving_to_text :: string where
  "saving_to_text =
     [CHR 0xE6, CHR 0x96, CHR 0x87, CHR 0xE4, CHR 0xBB, CHR 0xB6, CHR 0xE5, CHR 0xB0,
      CHR 0x86, CHR 0xE8, CHR 0xA2, CHR 0xAB, CHR 0xE4, CHR 0xBF, CHR 0x9D, CHR 0xE5,
      CHR 0xAD, CHR 0x98, CHR 0xE5, CHR 0x88, CHR 0xB0]
     @ '': ''"

text \<open>"processing:"\<close>

definition processing_text :: string where
  "processing_text =
     ''] ''
     @ [CHR 0xE6, CHR 0xAD, CHR 0xA3, CHR 0xE5, CHR 0x9C, CHR 0xA8, CHR 0xE5, CHR 0xA4,
      CHR 0x84, CHR 0xE7, CHR 0x90, CHR 0x86]
     @ '': ''"

definition processing_line :: "nat \<Rightarrow> nat \<Rightarrow> string \<Rightarrow> string" where
  "processing_line i n_total t =
     [CHR 0x0A] @ ''['' @ str_nat (i + 1) @ ''/'' @ str_nat n_total @ processing_text @ t"

definition destination :: "string \<Rightarrow> announcement \<Rightarrow> string" where
  "destination target_dir ann = path_join target_dir (clean_filename (title ann) @ ''.pdf'')"

text \<open>\<open>for i, ann in enumerate(announcements)\<close>, from index \<open>i\<close> on.\<close>

fun batch_loop ::
  "(nat \<Rightarrow> download_world) \<Rightarrow> nat \<Rightarrow> nat \<Rightarrow> string \<Rightarrow> announcement list \<Rightarrow> event list" where
  "batch_loop dl i n_total target_dir [] = []"
| "batch_loop dl i n_total target_dir (ann # rest) =
     (let filepath = destination target_dir ann;
          (ev, result) = download_pdf_hybrid (dl i) (url ann) filepath
      in Print (processing_line i n_total (title ann)) # ev @ [Print result]
         @ batch_loop dl (i + 1) n_total target_dir rest)"

definition batch_download_sequential ::
  "world \<Rightarrow> announcement list \<Rightarrow> string \<Rightarrow> event list \<times> unit outcome" where
  "batch_download_sequential w announcements target_dir =
     (if announcements = [] then ([Print nothing_to_download_text], Returns ())
      else
        (case makedirs w of
           Raises t \<Rightarrow> ([MakeDirs target_dir], Raises t)
         | Returns _ \<Rightarrow>
             ([MakeDirs target_dir, Print (saving_to_text @ abspath w target_dir)]
              @ batch_loop (downloads w) 0 (length announcements) target_dir announcements,
              Returns ())))"

section \<open>The main program\<close>

text \<open>"task parameters"\<close>

definition task_parameters_text :: string where
  "task_parameters_text =
     ''--- ''
     @ [CHR 0xE4, CHR 0xBB, CHR 0xBB, CHR 0xE5, CHR 0x8A, CHR 0xA1, CHR 0xE5, CHR 0x8F,
      CHR 0x82, CHR 0xE6, CHR 0x95, CHR 0xB0]
     @ '' ---''"

text \<open>"security code:"\<close>

definition security_code_text :: string where
  "security_code_text =
     [CHR 0xE8, CHR 0xAF, CHR 0x81, CHR 0xE5, CHR 0x88, CHR 0xB8, CHR 0xE4, CHR 0xBB,
      CHR 0xA3, CHR 0xE7, CHR 0xA0, CHR 0x81]
     @ '': ''"

text \<open>"time range:"\<close>

definition time_range_text :: string where
  "time_range_text =
     [CHR 0xE6, CHR 0x97, CHR 0xB6, CHR 0xE9, CHR 0x97, CHR 0xB4, CHR 0xE8, CHR 0x8C,
      CHR 0x83, CHR 0xE5, CHR 0x9B, CHR 0xB4]
     @ '': ''"

text \<open>"title keyword:"\<close>

definition title_keyword_text :: string where
  "title_keyword_text =
     [CHR 0xE6, CHR 0xA0, CHR 0x87, CHR 0xE9, CHR 0xA2, CHR 0x98, CHR 0xE5, CHR 0x85,
      CHR 0xB3, CHR 0xE9, CHR 0x94, CHR 0xAE, CHR 0xE5, CHR 0xAD, CHR 0x97]
     @ '': ''"

text \<open>"output directory:"\<close>

definition output_directory_text :: string where
  "output_directory_text =
     [CHR 0xE8, CHR 0xBE, CHR 0x93, CHR 0xE5, CHR 0x87, CHR 0xBA, CHR 0xE7, CHR 0x9B,
      CHR 0xAE, CHR 0xE5, CHR 0xBD, CHR 0x95]
     @ '': ''"

text \<open>"initialising Selenium to get past the anti-crawler"\<close>

definition init_selenium_text :: string where
  "init_selenium_text =
     [CHR 0x0A]
     @ ''--- ''
     @ [CHR 0xE5, CHR 0x88, CHR 0x9D, CHR 0xE5, CHR 0xA7, CHR 0x8B, CHR 0xE5, CHR 0x8C, CHR 0x96]
     @ ''Selenium''
     @ [CHR 0xE4, CHR 0xBB, CHR 0xA5, CHR 0xE7, CHR 0xBB, CHR 0x95, CHR 0xE8, CHR 0xBF,
      CHR 0x87, CHR 0xE5, CHR 0x8F, CHR 0x8D, CHR 0xE7, CHR 0x88, CHR 0xAC, CHR 0xE8,
      CHR 0x99, CHR 0xAB]
     @ '' ---''"

text \<open>"the browser is visiting the exchange's site for an initial session"\<close>

definition visiting_text :: string where
  "visiting_text =
     [CHR 0xE6, CHR 0xB5, CHR 0x8F, CHR 0xE8, CHR 0xA7, CHR 0x88, CHR 0xE5, CHR 0x99,
      CHR 0xA8, CHR 0xE6, CHR 0xAD, CHR 0xA3, CHR 0xE5, CHR 0x9C, CHR 0xA8, CHR 0xE8,
      CHR 0xAE, CHR 0xBF, CHR 0xE9, CHR 0x97, CHR 0xAE, CHR 0xE4, CHR 0xB8, CHR 0x8A,
      CHR 0xE4, CHR 0xBA, CHR 0xA4, CHR 0xE6, CHR 0x89, CHR 0x80, CHR 0xE7, CHR 0xBD,
      CHR 0x91, CHR 0xE7, CHR 0xAB, CHR 0x99, CHR 0xE4, CHR 0xBB, CHR 0xA5, CHR 0xE8,
      CHR 0x8E, CHR 0xB7, CHR 0xE5, CHR 0x8F, CHR 0x96, CHR 0xE5, CHR 0x88, CHR 0x9D,
      CHR 0xE5, CHR 0xA7, CHR 0x8B, CHR 0xE4, CHR 0xBC, CHR 0x9A, CHR 0xE8, CHR 0xAF,
      CHR 0x9D]
     @ ''...''"

text \<open>"cannot get any initial cookie from the browser"\<close>

definition no_initial_cookie_text :: string where
  "no_initial_cookie_text =
     [CHR 0xE6, CHR 0x97, CHR 0xA0, CHR 0xE6, CHR 0xB3, CHR 0x95, CHR 0xE4, CHR 0xBB,
      CHR 0x8E, CHR 0xE6, CHR 0xB5, CHR 0x8F, CHR 0xE8, CHR 0xA7, CHR 0x88, CHR 0xE5,
      CHR 0x99, CHR 0xA8, CHR 0xE8, CHR 0x8E, CHR 0xB7, CHR 0xE5, CHR 0x8F, CHR 0x96,
      CHR 0xE5, CHR 0x88, CHR 0xB0, CHR 0xE4, CHR 0xBB, CHR 0xBB, CHR 0xE4, CHR 0xBD,
      CHR 0x95, CHR 0xE5, CHR 0x88, CHR 0x9D, CHR 0xE5, CHR 0xA7, CHR 0x8B]
     @ ''Cookie''
     @ [CHR 0xE3, CHR 0x80, CHR 0x82]"

text \<open>"got"\<close>

definition got_cookies_text_1 :: string where
  "got_cookies_text_1 =
     [CHR 0xE6, CHR 0x88, CHR 0x90, CHR 0xE5, CHR 0x8A, CHR 0x9F, CHR 0xE8, CHR 0x8E,
      CHR 0xB7, CHR 0xE5, CHR 0x8F, CHR 0x96]
     @ '' ''"

text \<open>"initial cookies; about to fetch the announcement list"\<close>

definition got_cookies_text_2 :: string where
  "got_cookies_text_2 =
     '' ''
     @ [CHR 0xE4, CHR 0xB8, CHR 0xAA, CHR 0xE5, CHR 0x88, CHR 0x9D, CHR 0xE5, CHR 0xA7, CHR 0x8B]
     @ ''Cookie''
     @ [CHR 0xEF, CHR 0xBC, CHR 0x8C, CHR 0xE5, CHR 0x87, CHR 0x86, CHR 0xE5, CHR 0xA4,
      CHR 0x87, CHR 0xE8, CHR 0x8E, CHR 0xB7, CHR 0xE5, CHR 0x8F, CHR 0x96, CHR 0xE5,
      CHR 0x85, CHR 0xAC, CHR 0xE5, CHR 0x91, CHR 0x8A, CHR 0xE5, CHR 0x88, CHR 0x97,
      CHR 0xE8, CHR 0xA1, CHR 0xA8]
     @ ''...''"

text \<open>"the time range was split by year into"\<close>

definition split_text_1 :: string where
  "split_text_1 =
     [CHR 0x0A, CHR 0xE6, CHR 0x97, CHR 0xB6, CHR 0xE9, CHR 0x97, CHR 0xB4, CHR 0xE8,
      CHR 0x8C, CHR 0x83, CHR 0xE5, CHR 0x9B, CHR 0xB4, CHR 0xE5, CHR 0xB7, CHR 0xB2,
      CHR 0xE6, CHR 0x8C, CHR 0x89, CHR 0xE5, CHR 0xB9, CHR 0xB4, CHR 0xE4, CHR 0xBB,
      CHR 0xBD, CHR 0xE6, CHR 0x8B, CHR 0x86, CHR 0xE5, CHR 0x88, CHR 0x86, CHR 0xE4,
      CHR 0xB8, CHR 0xBA]
     @ '' ''"

text \<open>"periods:"\<close>

definition split_text_2 :: string where
  "split_text_2 =
     '' ''
     @ [CHR 0xE4, CHR 0xB8, CHR 0xAA, CHR 0xE6, CHR 0x97, CHR 0xB6, CHR 0xE9, CHR 0x97,
      CHR 0xB4, CHR 0xE6, CHR 0xAE, CHR 0xB5]
     @ '': ''"

text \<open>"processing the period:"\<close>

definition range_begin_text :: string where
  "range_begin_text =
     [CHR 0x0A]
     @ ''--- ''
     @ [CHR 0xE6, CHR 0xAD, CHR 0xA3, CHR 0xE5, CHR 0x9C, CHR 0xA8, CHR 0xE5, CHR 0xA4,
      CHR 0x84, CHR 0xE7, CHR 0x90, CHR 0x86, CHR 0xE6, CHR 0x97, CHR 0xB6, CHR 0xE9,
      CHR 0x97, CHR 0xB4, CHR 0xE6, CHR 0xAE, CHR 0xB5]
     @ '': ''"

text \<open>"period"\<close>

definition range_done_text_1 :: string where
  "range_done_text_1 =
     ''--- ''
     @ [CHR 0xE6, CHR 0x97, CHR 0xB6, CHR 0xE9, CHR 0x97, CHR 0xB4, CHR 0xE6, CHR 0xAE, CHR 0xB5]
     @ '' ''"

text \<open>"done, fetched"\<close>

definition range_done_text_2 :: string where
  "range_done_text_2 =
     '' ''
     @ [CHR 0xE5, CHR 0xA4, CHR 0x84, CHR 0xE7, CHR 0x90, CHR 0x86, CHR 0xE5, CHR 0xAE,
      CHR 0x8C, CHR 0xE6, CHR 0xAF, CHR 0x95, CHR 0xEF, CHR 0xBC, CHR 0x8C, CHR 0xE8,
      CHR 0x8E, CHR 0xB7, CHR 0xE5, CHR 0x8F, CHR 0x96, CHR 0xE5, CHR 0x88, CHR 0xB0]
     @ '' ''"

text \<open>"announcements"\<close>

definition range_done_text_3 :: string where
  "range_done_text_3 =
     '' ''
     @ [CHR 0xE6, CHR 0x9D, CHR 0xA1, CHR 0xE5, CHR 0x85, CHR 0xAC, CHR 0xE5, CHR 0x91, CHR 0x8A]
     @ '' ---''"

text \<open>"all announcement lists fetched, in total"\<close>

definition all_fetched_text_1 :: string where
  "all_fetched_text_1 =
     [CHR 0x0A]
     @ ''--- ''
     @ [CHR 0xE6, CHR 0x89, CHR 0x80, CHR 0xE6, CHR 0x9C, CHR 0x89, CHR 0xE5, CHR 0x85,
      CHR 0xAC, CHR 0xE5, CHR 0x91, CHR 0x8A, CHR 0xE5, CHR 0x88, CHR 0x97, CHR 0xE8,
      CHR 0xA1, CHR 0xA8, CHR 0xE8, CHR 0x8E, CHR 0xB7, CHR 0xE5, CHR 0x8F, CHR 0x96,
      CHR 0xE5, CHR 0xAE, CHR 0x8C, CHR 0xE6, CHR 0xAF, CHR 0x95, CHR 0xEF, CHR 0xBC,
      CHR 0x8C, CHR 0xE6, CHR 0x80, CHR 0xBB, CHR 0xE8, CHR 0xAE, CHR 0xA1]
     @ '' ''"

text \<open>"entries"\<close>

definition all_fetched_text_2 :: string where
  "all_fetched_text_2 =
     '' ''
     @ [CHR 0xE6, CHR 0x9D, CHR 0xA1]
     @ '' ---''"

text \<open>"all tasks done"\<close>

definition all_done_text :: string where
  "all_done_text =
     [CHR 0x0A, CHR 0xE6, CHR 0x89, CHR 0x80, CHR 0xE6, CHR 0x9C, CHR 0x89, CHR 0xE4,
      CHR 0xBB, CHR 0xBB, CHR 0xE5, CHR 0x8A, CHR 0xA1, CHR 0xE5, CHR 0xAE, CHR 0x8C,
      CHR 0xE6, CHR 0x88, CHR 0x90, CHR 0xE3, CHR 0x80, CHR 0x82]"

text \<open>"the browser is closed"\<close>

definition browser_closed_text :: string where
  "browser_closed_text =
     [CHR 0xE6, CHR 0xB5, CHR 0x8F, CHR 0xE8, CHR 0xA7, CHR 0x88, CHR 0xE5, CHR 0x99,
      CHR 0xA8, CHR 0xE5, CHR 0xB7, CHR 0xB2, CHR 0xE5, CHR 0x85, CHR 0xB3, CHR 0xE9,
      CHR 0x97, CHR 0xAD, CHR 0xE3, CHR 0x80, CHR 0x82]"

definition entry_url :: string where
  "entry_url = ''https://www.sse.com.cn/disclosure/listedinfo/announcement/''"

text \<open>\<open>str()\<close> of the list of pairs of formatted dates (no character of them needs escaping).\<close>

definition repr_pair :: "string \<times> string \<Rightarrow> string" where
  "repr_pair p = ''('' @ [CHR 0x27] @ fst p @ [CHR 0x27] @ '', '' @ [CHR 0x27] @ snd p @ [CHR 0x27] @ '')''"

fun join_comma :: "string list \<Rightarrow> string" where
  "join_comma [] = []"
| "join_comma [x] = x"
| "join_comma (x # y # r) = x @ '', '' @ join_comma (y # r)"

definition repr_ranges :: "(string \<times> string) list \<Rightarrow> string" where
  "repr_ranges rs = ''['' @ join_comma (map repr_pair rs) @ '']''"

text \<open>The lines printed before the \<open>try\<close>.\<close>

definition main_header :: "world \<Rightarrow> string \<Rightarrow> string \<Rightarrow> string \<Rightarrow> string \<Rightarrow> string \<Rightarrow> event list" where
  "main_header w security_code start_date end_date title_arg target_dir =
     [Print task_parameters_text,
      Print (security_code_text @ security_code),
      Print (time_range_text @ start_date @ '' to '' @ end_date)]
     @ (if title_arg \<noteq> [] then [Print (title_keyword_text @ title_arg)] else [])
     @ [Print (output_directory_text @ abspath w target_dir),
        Print ''-----------------'',
        Print init_selenium_text]"

text \<open>
  \<open>for start, end in date_ranges\<close>: each period is fetched through the same session, so the
  requests of a period are numbered after those of the periods before it. The state is
  \<open>full_ann_list\<close>; the result also has the calls made and the number of requests sent.
\<close>

fun ranges_loop ::
  "nat \<Rightarrow> (nat \<Rightarrow> response) \<Rightarrow> string \<Rightarrow> string \<Rightarrow> (string \<times> string) list
   \<Rightarrow> announcement list \<Rightarrow> (event list \<times> announcement list) option" where
  "ranges_loop fuel api security_code title_arg [] full_ann_list = Some ([], full_ann_list)"
| "ranges_loop fuel api security_code title_arg ((start, end) # rest) full_ann_list =
     (case fetch_all_announcements_paginated fuel api security_code start end title_arg of
        None \<Rightarrow> None
      | Some st \<Rightarrow>
          (case ranges_loop fuel (\<lambda>n. api (n + sent st)) security_code title_arg rest
                  (full_ann_list @ all_announcements st) of
             None \<Rightarrow> None
           | Some (ev, result) \<Rightarrow>
               Some (Print (range_begin_text @ start @ '' to '' @ end @ '' ---'')
                     # trace st
                     @ [Print (range_done_text_1 @ start @ '' to '' @ end @ range_done_text_2
                               @ str_nat (length (all_announcements st)) @ range_done_text_3)]
                     @ ev, result)))"

text \<open>
  The \<open>try\<close> block: the calls made, the exception that left it if one did, and whether
  \<open>driver\<close> was bound by then. \<open>None\<close> says that a fetch was still running when its fuel ran out.
\<close>

definition main_try ::
  "nat \<Rightarrow> world \<Rightarrow> string \<Rightarrow> string \<Rightarrow> string \<Rightarrow> string \<Rightarrow> string
   \<Rightarrow> (event list \<times> py_exception option \<times> bool) option" where
  "main_try fuel w security_code start_date end_date title_arg target_dir =
     (case chrome w of
        Raises t \<Rightarrow> Some ([ChromeStart], Some (Exception t), False)
      | Returns _ \<Rightarrow>
     (case entry_navigate w of
        Raises t \<Rightarrow>
          Some ([ChromeStart, Print visiting_text, DriverGet entry_url], Some (Exception t), True)
      | Returns _ \<Rightarrow>
     (let ev1 = [ChromeStart, Print visiting_text, DriverGet entry_url, Sleep 5000, GetCookies]
      in case entry_cookies w of
        Raises t \<Rightarrow> Some (ev1, Some (Exception t), True)
      | Returns cookies \<Rightarrow>
     if cookies = [] then Some (ev1, Some (Exception no_initial_cookie_text), True)
     else
     (let ev2 = ev1 @ [Print (got_cookies_text_1 @ str_nat (length cookies) @ got_cookies_text_2)]
      in case generate_yearly_date_ranges start_date end_date of
        Inl e \<Rightarrow> Some (ev2, Some e, True)
      | Inr date_ranges \<Rightarrow>
     (let ev3 = ev2 @ [Print (split_text_1 @ str_nat (length date_ranges) @ split_text_2
                              @ repr_ranges date_ranges)]
      in case ranges_loop fuel (listing_api w) security_code title_arg date_ranges [] of
        None \<Rightarrow> None
      | Some (ev, full_ann_list) \<Rightarrow>
     (let ev4 = ev3 @ ev @ [Print (all_fetched_text_1 @ str_nat (length full_ann_list)
                                   @ all_fetched_text_2)]
      in if full_ann_list \<noteq> [] then
           (case batch_download_sequential w full_ann_list target_dir of
              (bev, Raises t) \<Rightarrow> Some (ev4 @ bev, Some (Exception t), True)
            | (bev, Returns _) \<Rightarrow> Some (ev4 @ bev @ [Print all_done_text], None, True))
         else Some (ev4 @ [Print all_done_text], None, True)))))))"

text \<open>
  The program from the first line it prints: the header, the \<open>try\<close> block, the \<open>except\<close>
  clause (it prints the exception) and the \<open>finally\<close> clause (it closes the browser if one
  was started).
\<close>

definition main ::
  "nat \<Rightarrow> world \<Rightarrow> string \<Rightarrow> string \<Rightarrow> string \<Rightarrow> string \<Rightarrow> string \<Rightarrow> event list option" where
  "main fuel w security_code start_date end_date title_arg target_dir =
     (case main_try fuel w security_code start_date end_date title_arg target_dir of
        None \<Rightarrow> None
      | Some (ev, caught, driver_bound) \<Rightarrow>
          Some (main_header w security_code start_date end_date title_arg target_dir
                @ ev
                @ (case caught of None \<Rightarrow> [] | Some e \<Rightarrow> [PrintFatal e])
                @ (if driver_bound then [DriverQuit, Print browser_closed_text] else [])))"

section \<open>Notions the properties are stated with\<close>

text \<open>
  The test an item has to pass (\<open>if title and url_path\<close>) and the dict the program appends
  for it.
\<close>

definition yields :: "item \<Rightarrow> bool" where
  "yields it = (truthy (item_get it ''TITLE'') \<and> truthy (item_get it ''URL''))"

definition announcement_of :: "item \<Rightarrow> announcement" where
  "announcement_of it =
     \<lparr>title = py_str (item_get it ''TITLE''), url = static_host @ py_str (item_get it ''URL'')\<rparr>"

text \<open>
  A response that ends the paging (a decoded body whose payload is empty), and the
  records the program takes from a response (none unless it is a decoded body).
\<close>

definition empty_page :: "response \<Rightarrow> bool" where
  "empty_page r =
     (case r of Json data \<Rightarrow> payload_empty (current_page_data_of data) | _ \<Rightarrow> False)"

definition page_records :: "response \<Rightarrow> announcement list" where
  "page_records r =
     (case r of
        Json data \<Rightarrow> snd (page_loop (inner_lists (current_page_data_of data)) (PyNone, []))
      | _ \<Rightarrow> [])"

text \<open>The parameters of the requests to the listing endpoint among some calls, in order.\<close>

fun requests_of :: "event list \<Rightarrow> params list" where
  "requests_of [] = []"
| "requests_of (ApiGet u p # ev) = p # requests_of ev"
| "requests_of (e # ev) = requests_of ev"

text \<open>Whether a call reaches the listing endpoint, the document host or the file system.\<close>

fun fetch_or_download :: "event \<Rightarrow> bool" where
  "fetch_or_download (ApiGet u p) = True"
| "fetch_or_download (DownloadGet u c h) = True"
| "fetch_or_download (MakeDirs d) = True"
| "fetch_or_download (OpenWrite f) = True"
| "fetch_or_download (WriteChunk f c) = True"
| "fetch_or_download (CloseFile f) = True"
| "fetch_or_download e = False"

text \<open>
  A list of ranges that splits the days from \<open>s\<close> to \<open>e\<close> by calendar year: it is not empty,
  the first range starts at \<open>s\<close> and the last ends at \<open>e\<close>, each range lies in one year with
  its start not after its end, and each range but the last ends on December 31 and is
  followed by a range that starts on January 1 of the next year.
\<close>

fun splits_by_year :: "date \<Rightarrow> (date \<times> date) list \<Rightarrow> date \<Rightarrow> bool" where
  "splits_by_year s [] e = False"
| "splits_by_year s ((a, b) # rs) e =
     (a = s \<and> date_le a b \<and> year a = year b \<and>
      (if rs = [] then b = e
       else b = \<lparr>year = year a, month = 12, day = 31\<rparr>
            \<and> splits_by_year \<lparr>year = year a + 1, month = 1, day = 1\<rparr> rs e))"

text \<open>The addresses the browser is sent to among some calls, in order.\<close>

fun navigations_of :: "event list \<Rightarrow> string list" where
  "navigations_of [] = []"
| "navigations_of (DriverGet u # ev) = u # navigations_of ev"
| "navigations_of (e # ev) = navigations_of ev"

section \<open>Example inputs\<close>

definition body_of :: "item list list \<Rightarrow> body" where
  "body_of d = [''pageHelp'' \<mapsto> [''data'' \<mapsto> Some d]]"

definition q1_item :: item where
  "q1_item = [''TITLE'' \<mapsto> PyStr ''Q1 Report'', ''URL'' \<mapsto> PyStr ''/a.pdf'']"

definition untitled_item :: item where
  "untitled_item = [''TITLE'' \<mapsto> PyStr [], ''URL'' \<mapsto> PyStr ''/b.pdf'']"

definition q2_item :: item where
  "q2_item = [''TITLE'' \<mapsto> PyStr ''Q2: Report'', ''URL'' \<mapsto> PyStr ''/c.pdf'']"

text \<open>
  A session that answers with a page of two lists, fails once at the network level,
  answers with text that is not JSON, then with a second page, and has no data after that.
\<close>

definition example_session :: "nat \<Rightarrow> response" where
  "example_session n =
     (if n = 0 then Json (body_of [[q1_item], [untitled_item]])
      else if n = 1 then RequestException ''timed out''
      else if n = 2 then JSONDecodeError
      else if n = 3 then Json (body_of [[q2_item]])
      else Json (body_of []))"

text \<open>A session that answers twice with text that is not JSON and then has no data.\<close>

definition undecodable_session :: "nat \<Rightarrow> response" where
  "undecodable_session n = (if n < 2 then JSONDecodeError else Json (body_of []))"

text \<open>A session that fails twice at the network level and then has no data.\<close>

definition failing_session :: "nat \<Rightarrow> response" where
  "failing_session n = (if n < 2 then RequestException ''timed out'' else Json (body_of []))"

text \<open>
  Worlds of one download: one where everything works, one where the answer has the status
  404, one where it has the status 304, and one where the second step of the stream raises
  an exception whose \<open>str()\<close> is empty (as that of \<open>MemoryError()\<close> is).
\<close>

definition download_ok :: download_world where
  "download_ok =
     \<lparr>navigate = Returns (), browser_cookies = Returns [(''sid'', ''42'')],
      http_get = Returns \<lparr>status_code = 200, reason_phrase = ''OK'',
                          final_url = ''https://static.sse.com.cn/a.pdf'',
                          chunks = [Returns ''%PDF'', Returns ''-1.4'']\<rparr>,
      file_open = Returns (), file_write = (\<lambda>n. Returns ())\<rparr>"

definition download_404 :: download_world where
  "download_404 =
     download_ok\<lparr>http_get := Returns \<lparr>status_code = 404, reason_phrase = ''Not Found'',
                                           final_url = ''https://static.sse.com.cn/a.pdf'',
                                           chunks = []\<rparr>\<rparr>"



text \<open>
  A run in which the browser reports no cookie after the first navigation, and one in
  which it reports one.
\<close>

definition world_with_cookie :: world where
  "world_with_cookie =
     \<lparr>chrome = Returns (), entry_navigate = Returns (), entry_cookies = Returns [(''sid'', ''42'')],
      listing_api = example_session, makedirs = Returns (),
      abspath = (\<lambda>p. ''/home/user/'' @ p),
      downloads = (\<lambda>n. if n = 0 then download_404 else download_ok)\<rparr>"

definition world_without_cookie :: world where
  "world_without_cookie = world_with_cookie\<lparr>entry_cookies := Returns []\<rparr>"

section \<open>Properties of the extraction from a page\<close>

lemma item_step_eq:
  "item_step it (t, acc) =
     (item_get it ''TITLE'', if yields it then acc @ [announcement_of it] else acc)"
  by (simp add: yields_def announcement_of_def Let_def)

lemma inner_loop_snd:
  "snd (inner_loop xs (t, acc)) = acc @ map announcement_of (filter yields xs)"
proof (induction xs arbitrary: t acc)
  case Nil
  then show ?case by simp
next
  case (Cons it xs)
  show ?case by (simp only: inner_loop.simps item_step_eq Cons.IH) simp
qed

lemma inner_loop_pair:
  "inner_loop xs (t, acc)
     = (fst (inner_loop xs (t, acc)), acc @ map announcement_of (filter yields xs))"
  by (metis inner_loop_snd prod.collapse)

lemma page_loop_snd:
  "snd (page_loop d (t, acc)) = acc @ map announcement_of (filter yields (concat d))"
proof (induction d arbitrary: t acc)
  case Nil
  then show ?case by simp
next
  case (Cons xs d)
  have "page_loop (xs # d) (t, acc)
        = page_loop d (fst (inner_loop xs (t, acc)), acc @ map announcement_of (filter yields xs))"
    using inner_loop_pair [of xs t acc] by simp
  then show ?case by (simp add: Cons.IH)
qed

lemma truthy_item_get:
  "truthy (item_get it k) \<longleftrightarrow> (\<exists>s. it k = Some (PyStr s) \<and> s \<noteq> [])"
  by (cases "it k"; cases "the (it k)") (auto simp: item_get_def)

text \<open>
  C5. The records taken from a page are those of the items of all its lists, in order,
  that pass the test, one record each; an item passes the test exactly when its TITLE and
  its URL are both present and non-empty strings (so an item that fails it is left out and
  the items after it are still visited); and the record of an item with TITLE \<open>a\<close> and URL
  \<open>b\<close> has the title \<open>a\<close> and the url \<open>b\<close> after the static host.
\<close>

theorem page_yields_title_and_url:
  "snd (page_loop current_page_data (t, []))
     = map announcement_of (filter yields (concat current_page_data))
   \<and> (yields it \<longleftrightarrow>
        (\<exists>a b. it ''TITLE'' = Some (PyStr a) \<and> a \<noteq> [] \<and> it ''URL'' = Some (PyStr b) \<and> b \<noteq> []))
   \<and> announcement_of (m(''TITLE'' \<mapsto> PyStr a, ''URL'' \<mapsto> PyStr b))
        = \<lparr>title = a, url = ''https://static.sse.com.cn'' @ b\<rparr>"
proof (intro conjI)
  show "snd (page_loop current_page_data (t, []))
          = map announcement_of (filter yields (concat current_page_data))"
    by (simp add: page_loop_snd)
  show "yields it \<longleftrightarrow>
        (\<exists>a b. it ''TITLE'' = Some (PyStr a) \<and> a \<noteq> [] \<and> it ''URL'' = Some (PyStr b) \<and> b \<noteq> [])"
    unfolding yields_def truthy_item_get by blast
  show "announcement_of (m(''TITLE'' \<mapsto> PyStr a, ''URL'' \<mapsto> PyStr b))
          = \<lparr>title = a, url = ''https://static.sse.com.cn'' @ b\<rparr>"
    by (simp add: announcement_of_def item_get_def static_host_def)
qed

text \<open>The page of the specification's example yields exactly the one record.\<close>

theorem page_yields_title_and_url_witness:
  "snd (page_loop [[q1_item], [untitled_item]] (PyStr ''dividend'', []))
     = [\<lparr>title = ''Q1 Report'', url = ''https://static.sse.com.cn/a.pdf''\<rparr>]"
proof -
  have y1: "yields q1_item"
    using page_yields_title_and_url [of "[]" PyNone q1_item]
    by (simp add: q1_item_def)
  have y2: "\<not> yields untitled_item"
    using page_yields_title_and_url [of "[]" PyNone untitled_item]
    by (simp add: untitled_item_def)
  have a1: "announcement_of q1_item
              = \<lparr>title = ''Q1 Report'', url = ''https://static.sse.com.cn/a.pdf''\<rparr>"
    using page_yields_title_and_url [of "[]" PyNone q1_item Map.empty "''Q1 Report''" "''/a.pdf''"]
    by (simp add: q1_item_def)
  show ?thesis
    using page_yields_title_and_url [of "[[q1_item], [untitled_item]]" "PyStr ''dividend''"] y1 y2 a1
    by simp
qed

section \<open>Properties of the paging loop\<close>

lemma fetch_iteration_empty:
  "empty_page r \<Longrightarrow>
   fetch_iteration c s e r st =
     Break (st\<lparr>sent := sent st + 1,
               trace := trace st @ [ApiGet base_url (make_params c s e st)]\<rparr>)"
  by (cases r) (simp_all add: empty_page_def fetch_iteration_def Let_def)

lemma page_records_Json:
  "page_records (Json data)
     = map announcement_of (filter yields (concat (inner_lists (current_page_data_of data))))"
  by (simp add: page_records_def page_loop_snd)

lemma fetch_iteration_nonempty:
  "\<not> empty_page r \<Longrightarrow>
   \<exists>st'. fetch_iteration c s e r st = Continue st' \<and> sent st' = sent st + 1
        \<and> all_announcements st' = all_announcements st @ page_records r"
proof (cases r)
  case (RequestException t)
  then show ?thesis by (simp add: fetch_iteration_def Let_def page_records_def)
next
  case JSONDecodeError
  then show ?thesis by (simp add: fetch_iteration_def Let_def page_records_def)
next
  case (Json data)
  assume ne: "\<not> empty_page r"
  obtain t' anns where pl:
    "page_loop (inner_lists (current_page_data_of data)) (title_var st, []) = (t', anns)"
    by (cases "page_loop (inner_lists (current_page_data_of data)) (title_var st, [])")
  have "anns = page_records r"
    using page_loop_snd [of "inner_lists (current_page_data_of data)" "title_var st" "[]"] pl Json
    by (simp add: page_records_Json)
  with Json ne pl show ?thesis
    by (simp add: fetch_iteration_def Let_def empty_page_def)
qed

lemma fetch_loop_first_empty:
  "empty_page (session n) \<Longrightarrow> (\<forall>i. sent st \<le> i \<and> i < n \<longrightarrow> \<not> empty_page (session i)) \<Longrightarrow>
   sent st \<le> n \<Longrightarrow> n - sent st < fuel \<Longrightarrow>
   \<exists>st'. fetch_loop fuel session c s e st = Some st' \<and> sent st' = n + 1
        \<and> all_announcements st'
            = all_announcements st @ concat (map (\<lambda>i. page_records (session i)) [sent st..<n])"
proof (induction fuel arbitrary: st)
  case 0
  then show ?case by simp
next
  case (Suc fuel)
  show ?case
  proof (cases "sent st = n")
    case True
    with Suc.prems(1) show ?thesis
      by (simp add: fetch_iteration_empty)
  next
    case False
    with Suc.prems have lt: "sent st < n" by simp
    with Suc.prems have ne: "\<not> empty_page (session (sent st))" by simp
    from fetch_iteration_nonempty [OF ne, of c s e st] obtain st1 where
      it: "fetch_iteration c s e (session (sent st)) st = Continue st1"
      and s1: "sent st1 = sent st + 1"
      and a1: "all_announcements st1 = all_announcements st @ page_records (session (sent st))"
      by blast
    have "\<exists>st'. fetch_loop fuel session c s e st1 = Some st' \<and> sent st' = n + 1
        \<and> all_announcements st'
            = all_announcements st1 @ concat (map (\<lambda>i. page_records (session i)) [sent st1..<n])"
      using Suc.prems lt s1 by (intro Suc.IH) auto
    then obtain st' where r: "fetch_loop fuel session c s e st1 = Some st'" "sent st' = n + 1"
      "all_announcements st'
            = all_announcements st1 @ concat (map (\<lambda>i. page_records (session i)) [sent st1..<n])"
      by blast
    have "[sent st..<n] = sent st # [sent st1..<n]"
      using lt s1 by (simp add: upt_conv_Cons)
    with r a1 it show ?thesis by simp
  qed
qed

lemma fetch_loop_running:
  "(\<forall>i. sent st \<le> i \<and> i < sent st + fuel \<longrightarrow> \<not> empty_page (session i)) \<Longrightarrow>
   fetch_loop fuel session c s e st = None"
proof (induction fuel arbitrary: st)
  case 0
  then show ?case by simp
next
  case (Suc fuel)
  then have ne: "\<not> empty_page (session (sent st))" by simp
  from fetch_iteration_nonempty [OF ne, of c s e st] obtain st1 where
      it: "fetch_iteration c s e (session (sent st)) st = Continue st1"
      and s1: "sent st1 = sent st + 1" by blast
  have "fetch_loop fuel session c s e st1 = None"
    using Suc.prems s1 by (intro Suc.IH) auto
  with it show ?case by simp
qed

text \<open>
  C1. When the response numbered \<open>n\<close> is the first whose payload is empty, the loop, given
  fuel for more than \<open>n\<close> passes, returns after exactly \<open>n + 1\<close> requests, and the list it
  returns is the concatenation, in order, of the records of the responses before that one
  (a response that is no decoded body has none). With less fuel it is still running.
\<close>

theorem fetch_stops_at_first_empty_page:
  assumes "empty_page (session n)" and "\<forall>i<n. \<not> empty_page (session i)"
  shows "(n < fuel \<longrightarrow>
           (\<exists>st. fetch_all_announcements_paginated fuel session security_code start_date end_date t
                   = Some st
                 \<and> sent st = n + 1
                 \<and> all_announcements st = concat (map (\<lambda>i. page_records (session i)) [0..<n])))
       \<and> (fuel \<le> n \<longrightarrow>
           fetch_all_announcements_paginated fuel session security_code start_date end_date t = None)"
proof (intro conjI impI)
  assume "n < fuel"
  then show "\<exists>st. fetch_all_announcements_paginated fuel session security_code start_date end_date t
                   = Some st
                 \<and> sent st = n + 1
                 \<and> all_announcements st = concat (map (\<lambda>i. page_records (session i)) [0..<n])"
    using fetch_loop_first_empty [of session n "fetch_start t" fuel security_code start_date end_date]
      assms
    by (simp add: fetch_all_announcements_paginated_def fetch_start_def)
next
  assume "fuel \<le> n"
  then show "fetch_all_announcements_paginated fuel session security_code start_date end_date t = None"
    using fetch_loop_running [of "fetch_start t" fuel session security_code start_date end_date] assms
    by (simp add: fetch_all_announcements_paginated_def fetch_start_def)
qed

lemma example_session_pages:
  "\<not> empty_page (example_session 0)" "\<not> empty_page (example_session 1)"
  "\<not> empty_page (example_session 2)" "\<not> empty_page (example_session 3)"
  "empty_page (example_session 4)"
  by (simp_all add: example_session_def empty_page_def body_of_def current_page_data_of_def
        payload_empty_def)

lemma less_4_cases: "i < (4::nat) \<Longrightarrow> i = 0 \<or> i = 1 \<or> i = 2 \<or> i = 3"
  by arith

text \<open>
  The example session: its fifth response is the first empty one, and the two records of
  the pages before it are returned.
\<close>

theorem fetch_stops_at_first_empty_page_witness:
  "empty_page (example_session 4)
   \<and> \<not> empty_page (example_session 0) \<and> \<not> empty_page (example_session 1)
   \<and> \<not> empty_page (example_session 2) \<and> \<not> empty_page (example_session 3)
   \<and> (\<exists>st. fetch_all_announcements_paginated 5 example_session ''600036'' ''2022-06-15''
              ''2022-12-31'' ''dividend'' = Some st
         \<and> sent st = 5
         \<and> all_announcements st
             = [\<lparr>title = ''Q1 Report'', url = ''https://static.sse.com.cn/a.pdf''\<rparr>,
                \<lparr>title = ''Q2: Report'', url = ''https://static.sse.com.cn/c.pdf''\<rparr>])
   \<and> fetch_all_announcements_paginated 4 example_session ''600036'' ''2022-06-15''
        ''2022-12-31'' ''dividend'' = None"
proof -
  have h: "\<forall>i<4. \<not> empty_page (example_session i)"
    using example_session_pages less_4_cases by blast
  have recs: "concat (map (\<lambda>i. page_records (example_session i)) [0..<4])
     = [\<lparr>title = ''Q1 Report'', url = ''https://static.sse.com.cn/a.pdf''\<rparr>,
        \<lparr>title = ''Q2: Report'', url = ''https://static.sse.com.cn/c.pdf''\<rparr>]"
    by (simp add: upt_conv_Cons page_records_Json page_records_def example_session_def body_of_def
          current_page_data_of_def inner_lists_def yields_def announcement_of_def item_get_def
          q1_item_def q2_item_def untitled_item_def static_host_def)
  show ?thesis
    using fetch_stops_at_first_empty_page [OF example_session_pages(5) h, of 5 "''600036''"
        "''2022-06-15''" "''2022-12-31''" "''dividend''"]
      fetch_stops_at_first_empty_page [OF example_session_pages(5) h, of 4 "''600036''"
        "''2022-06-15''" "''2022-12-31''" "''dividend''"]
      example_session_pages recs
    by simp
qed

lemma requests_of_append: "requests_of (xs @ ys) = requests_of xs @ requests_of ys"
  by (induction xs rule: requests_of.induct) simp_all

lemma fetch_iteration_JSONDecodeError:
  "fetch_iteration c s e JSONDecodeError st =
     Continue (st\<lparr>sent := sent st + 1, page_num := page_num st + 1,
                  trace := trace st @ [ApiGet base_url (make_params c s e st),
                                       Print (json_error_line (page_num st))]\<rparr>)"
  by (simp add: fetch_iteration_def Let_def)

lemma fetch_iteration_RequestException:
  "fetch_iteration c s e (RequestException t) st =
     Continue (st\<lparr>sent := sent st + 1,
                  trace := trace st @ [ApiGet base_url (make_params c s e st),
                                       Print (request_error_line (page_num st) t),
                                       Sleep 2000]\<rparr>)"
  by (simp add: fetch_iteration_def Let_def)

lemma fetch_loop_retries:
  "(\<forall>i<k. \<exists>t. session (sent st + i) = RequestException t) \<Longrightarrow>
   \<exists>st'. fetch_loop (k + fuel) session c s e st = fetch_loop fuel session c s e st'
        \<and> page_num st' = page_num st \<and> title_var st' = title_var st
        \<and> all_announcements st' = all_announcements st \<and> sent st' = sent st + k
        \<and> requests_of (trace st') = requests_of (trace st) @ replicate k (make_params c s e st)"
proof (induction k arbitrary: st)
  case 0
  show ?case by (rule exI [of _ st]) simp
next
  case (Suc k)
  from Suc.prems obtain t where t: "session (sent st) = RequestException t"
    by (metis add.right_neutral zero_less_Suc)
  define st1 where "st1 = st\<lparr>sent := sent st + 1,
                  trace := trace st @ [ApiGet base_url (make_params c s e st),
                                       Print (request_error_line (page_num st) t),
                                       Sleep 2000]\<rparr>"
  have step: "fetch_loop (Suc k + fuel) session c s e st = fetch_loop (k + fuel) session c s e st1"
    by (simp add: t fetch_iteration_RequestException st1_def)
  have "\<forall>i<k. \<exists>t. session (sent st1 + i) = RequestException t"
  proof (intro allI impI)
    fix i assume "i < k"
    then have "Suc i < Suc k" by simp
    with Suc.prems obtain t' where "session (sent st + Suc i) = RequestException t'" by blast
    then show "\<exists>t. session (sent st1 + i) = RequestException t" by (simp add: st1_def)
  qed
  from Suc.IH [OF this] obtain st' where r:
    "fetch_loop (k + fuel) session c s e st1 = fetch_loop fuel session c s e st'"
    "page_num st' = page_num st1" "title_var st' = title_var st1"
    "all_announcements st' = all_announcements st1" "sent st' = sent st1 + k"
    "requests_of (trace st') = requests_of (trace st1) @ replicate k (make_params c s e st1)"
    by blast
  have mp: "make_params c s e st1 = make_params c s e st"
    by (simp add: make_params_def st1_def)
  have "requests_of (trace st1) = requests_of (trace st) @ [make_params c s e st]"
    by (simp add: st1_def requests_of_append)
  with r mp have "requests_of (trace st')
                    = requests_of (trace st) @ replicate (Suc k) (make_params c s e st)"
    by (simp add: replicate_app_Cons_same)
  with r step show ?case by (intro exI [of _ st']) (simp add: st1_def)
qed

lemma map_upt_Suc_shift: "map f [0..<Suc k] = f 0 # map (\<lambda>i. f (Suc i)) [0..<k]"
proof -
  have "[0..<Suc k] = 0 # map Suc [0..<k]"
    by (simp add: upt_conv_Cons map_Suc_upt del: upt_Suc)
  then show ?thesis by (simp add: comp_def del: upt_Suc)
qed

lemma fetch_loop_request_failures:
  "(\<forall>i<k. session (sent st + i) = RequestException (msg i)) \<Longrightarrow>
   empty_page (session (sent st + k)) \<Longrightarrow>
   fetch_loop (Suc k + fuel) session c s e st =
     Some (st\<lparr>sent := sent st + k + 1,
              trace := trace st
                @ concat (map (\<lambda>i. [ApiGet base_url (make_params c s e st),
                                      Print (request_error_line (page_num st) (msg i)),
                                      Sleep 2000]) [0..<k])
                @ [ApiGet base_url (make_params c s e st)]\<rparr>)"
proof (induction k arbitrary: st msg)
  case 0
  then show ?case by (simp add: fetch_iteration_empty)
next
  case (Suc k)
  from Suc.prems(1) have t0: "session (sent st) = RequestException (msg 0)"
    by (metis add.right_neutral zero_less_Suc)
  define st1 where "st1 = st\<lparr>sent := sent st + 1,
                  trace := trace st @ [ApiGet base_url (make_params c s e st),
                                       Print (request_error_line (page_num st) (msg 0)),
                                       Sleep 2000]\<rparr>"
  have step: "fetch_loop (Suc (Suc k) + fuel) session c s e st
                = fetch_loop (Suc k + fuel) session c s e st1"
    by (simp add: t0 fetch_iteration_RequestException st1_def)
  have h1: "\<forall>i<k. session (sent st1 + i) = RequestException (msg (Suc i))"
  proof (intro allI impI)
    fix i assume "i < k"
    then have "Suc i < Suc k" by simp
    with Suc.prems(1) have "session (sent st + Suc i) = RequestException (msg (Suc i))" by blast
    then show "session (sent st1 + i) = RequestException (msg (Suc i))" by (simp add: st1_def)
  qed
  have h2: "empty_page (session (sent st1 + k))"
    using Suc.prems(2) by (simp add: st1_def)
  have mp: "make_params c s e st1 = make_params c s e st" "page_num st1 = page_num st"
    by (simp_all add: make_params_def st1_def)
  from Suc.IH [OF h1 h2] have r: "fetch_loop (Suc k + fuel) session c s e st1 =
     Some (st1\<lparr>sent := sent st1 + k + 1,
              trace := trace st1
                @ concat (map (\<lambda>i. [ApiGet base_url (make_params c s e st),
                                      Print (request_error_line (page_num st) (msg (Suc i))),
                                      Sleep 2000]) [0..<k])
                @ [ApiGet base_url (make_params c s e st)]\<rparr>)"
    by (simp only: mp)
  show ?case
    unfolding step r map_upt_Suc_shift
    by (simp add: st1_def)
qed

lemma fetch_loop_decode_failures:
  "(\<forall>i<k. session (sent st + i) = JSONDecodeError) \<Longrightarrow>
   empty_page (session (sent st + k)) \<Longrightarrow>
   fetch_loop (Suc k + fuel) session c s e st =
     Some (st\<lparr>sent := sent st + k + 1, page_num := page_num st + k,
              trace := trace st
                @ concat (map (\<lambda>i. [ApiGet base_url
                                        (make_params c s e (st\<lparr>page_num := page_num st + i\<rparr>)),
                                      Print (json_error_line (page_num st + i))]) [0..<k])
                @ [ApiGet base_url (make_params c s e (st\<lparr>page_num := page_num st + k\<rparr>))]\<rparr>)"
proof (induction k arbitrary: st)
  case 0
  then show ?case by (simp add: fetch_iteration_empty make_params_def)
next
  case (Suc k)
  from Suc.prems(1) have t0: "session (sent st) = JSONDecodeError"
    by (metis add.right_neutral zero_less_Suc)
  define st1 where "st1 = st\<lparr>sent := sent st + 1, page_num := page_num st + 1,
                  trace := trace st @ [ApiGet base_url (make_params c s e st),
                                       Print (json_error_line (page_num st))]\<rparr>"
  have step: "fetch_loop (Suc (Suc k) + fuel) session c s e st
                = fetch_loop (Suc k + fuel) session c s e st1"
    by (simp add: t0 fetch_iteration_JSONDecodeError st1_def)
  have h1: "\<forall>i<k. session (sent st1 + i) = JSONDecodeError"
  proof (intro allI impI)
    fix i assume "i < k"
    then have "Suc i < Suc k" by simp
    with Suc.prems(1) have "session (sent st + Suc i) = JSONDecodeError" by blast
    then show "session (sent st1 + i) = JSONDecodeError" by (simp add: st1_def)
  qed
  have h2: "empty_page (session (sent st1 + k))"
    using Suc.prems(2) by (simp add: st1_def)
  have mp: "\<And>n. make_params c s e (st1\<lparr>page_num := n\<rparr>)
                 = make_params c s e (st\<lparr>page_num := n\<rparr>)"
    "\<And>i. page_num st1 + i = page_num st + Suc i"
    by (simp_all add: make_params_def st1_def)
  have m0: "make_params c s e (st\<lparr>page_num := page_num st + 0\<rparr>) = make_params c s e st"
    by (simp add: make_params_def)
  from Suc.IH [OF h1 h2] have r: "fetch_loop (Suc k + fuel) session c s e st1 =
     Some (st1\<lparr>sent := sent st1 + k + 1, page_num := page_num st + Suc k,
              trace := trace st1
                @ concat (map (\<lambda>i. [ApiGet base_url
                                        (make_params c s e (st\<lparr>page_num := page_num st + Suc i\<rparr>)),
                                      Print (json_error_line (page_num st + Suc i))]) [0..<k])
                @ [ApiGet base_url (make_params c s e (st\<lparr>page_num := page_num st + Suc k\<rparr>))]\<rparr>)"
    by (simp only: mp)
  show ?case
    unfolding step r map_upt_Suc_shift
    using m0 by (simp add: st1_def)
qed

text \<open>
  C6. A pass whose response is a JSON decode failure ends in \<open>Continue\<close> with the page
  number one higher, the list unchanged and nothing but the request and the printed line
  added to the calls; a pass whose request fails ends in \<open>Continue\<close> with the same page
  number, the list unchanged and the request, the printed line and a pause of two seconds
  added. So for every \<open>k\<close>: when \<open>k\<close> requests in a row fail and the next response has no
  data, the fetch returns, having sent \<open>k + 1\<close> requests for the same page with a pause of
  two seconds after each failure; and when \<open>k\<close> responses in a row cannot be decoded and the
  next has no data, the fetch returns, having asked for \<open>k + 1\<close> pages in a row.
\<close>

theorem failures_do_not_abort_the_fetch:
  "fetch_iteration c s e JSONDecodeError st =
     Continue (st\<lparr>sent := sent st + 1, page_num := page_num st + 1,
                  trace := trace st @ [ApiGet base_url (make_params c s e st),
                                       Print (json_error_line (page_num st))]\<rparr>)
   \<and> fetch_iteration c s e (RequestException t) st =
     Continue (st\<lparr>sent := sent st + 1,
                  trace := trace st @ [ApiGet base_url (make_params c s e st),
                                       Print (request_error_line (page_num st) t),
                                       Sleep 2000]\<rparr>)
   \<and> ((\<forall>i<k. session (sent st + i) = RequestException (msg i))
        \<and> empty_page (session (sent st + k)) \<longrightarrow>
      fetch_loop (Suc k + fuel) session c s e st =
        Some (st\<lparr>sent := sent st + k + 1,
                 trace := trace st
                   @ concat (map (\<lambda>i. [ApiGet base_url (make_params c s e st),
                                         Print (request_error_line (page_num st) (msg i)),
                                         Sleep 2000]) [0..<k])
                   @ [ApiGet base_url (make_params c s e st)]\<rparr>))
   \<and> ((\<forall>i<k. session (sent st + i) = JSONDecodeError)
        \<and> empty_page (session (sent st + k)) \<longrightarrow>
      fetch_loop (Suc k + fuel) session c s e st =
        Some (st\<lparr>sent := sent st + k + 1, page_num := page_num st + k,
                 trace := trace st
                   @ concat (map (\<lambda>i. [ApiGet base_url
                                           (make_params c s e (st\<lparr>page_num := page_num st + i\<rparr>)),
                                         Print (json_error_line (page_num st + i))]) [0..<k])
                   @ [ApiGet base_url
                        (make_params c s e (st\<lparr>page_num := page_num st + k\<rparr>))]\<rparr>))"
  using fetch_loop_request_failures [of k session st msg fuel c s e]
    fetch_loop_decode_failures [of k session st fuel c s e]
  by (simp only: fetch_iteration_JSONDecodeError fetch_iteration_RequestException) blast

lemma empty_body_is_empty_page: "empty_page (Json (body_of []))"
  by (simp add: empty_page_def body_of_def current_page_data_of_def payload_empty_def)

text \<open>
  Two failed requests, then no data: three requests for page 1 and the fetch returns. Two
  undecodable responses, then no data: requests for the pages 1, 2 and 3 and the fetch
  returns.
\<close>

theorem failures_do_not_abort_the_fetch_witness:
  "failing_session 0 = RequestException ''timed out''
   \<and> failing_session 1 = RequestException ''timed out''
   \<and> empty_page (failing_session 2)
   \<and> map_option (\<lambda>st. (all_announcements st, page_num st, sent st,
                        map pageNo (requests_of (trace st))))
        (fetch_all_announcements_paginated 3 failing_session ''600036'' ''2022-06-15''
           ''2022-12-31'' ''dividend'')
       = Some ([], 1, 3, [1, 1, 1])
   \<and> undecodable_session 0 = JSONDecodeError
   \<and> undecodable_session 1 = JSONDecodeError
   \<and> empty_page (undecodable_session 2)
   \<and> map_option (\<lambda>st. (all_announcements st, page_num st, sent st,
                        map pageNo (requests_of (trace st))))
        (fetch_all_announcements_paginated 3 undecodable_session ''600036'' ''2022-06-15''
           ''2022-12-31'' ''dividend'')
       = Some ([], 3, 3, [1, 2, 3])"
proof -
  have f: "failing_session 0 = RequestException ''timed out''"
    "failing_session 1 = RequestException ''timed out''"
    "empty_page (failing_session 2)"
    by (simp_all add: failing_session_def empty_body_is_empty_page)
  have u: "undecodable_session 0 = JSONDecodeError"
    "undecodable_session 1 = JSONDecodeError"
    "empty_page (undecodable_session 2)"
    by (simp_all add: undecodable_session_def empty_body_is_empty_page)
  have hf: "(\<forall>i<2. failing_session (sent (fetch_start ''dividend'') + i)
                     = RequestException ((\<lambda>i. ''timed out'') i))
            \<and> empty_page (failing_session (sent (fetch_start ''dividend'') + 2))"
    by (simp add: failing_session_def fetch_start_def empty_body_is_empty_page)
  have hu: "(\<forall>i<2. undecodable_session (sent (fetch_start ''dividend'') + i) = JSONDecodeError)
            \<and> empty_page (undecodable_session (sent (fetch_start ''dividend'') + 2))"
    by (simp add: undecodable_session_def fetch_start_def empty_body_is_empty_page)
  note th1 = failures_do_not_abort_the_fetch
    [of "''600036''" "''2022-06-15''" "''2022-12-31''" "fetch_start ''dividend''" "[]"
        2 failing_session "\<lambda>i. ''timed out''" 0]
  note th2 = failures_do_not_abort_the_fetch
    [of "''600036''" "''2022-06-15''" "''2022-12-31''" "fetch_start ''dividend''" "[]"
        2 undecodable_session "\<lambda>i. ''timed out''" 0]
  from th1 hf have r1: "fetch_loop (Suc 2 + 0) failing_session ''600036'' ''2022-06-15''
      ''2022-12-31'' (fetch_start ''dividend'')
    = Some ((fetch_start ''dividend'')\<lparr>sent := sent (fetch_start ''dividend'') + 2 + 1,
         trace := trace (fetch_start ''dividend'')
           @ concat (map (\<lambda>i. [ApiGet base_url (make_params ''600036'' ''2022-06-15''
                                    ''2022-12-31'' (fetch_start ''dividend'')),
                                 Print (request_error_line (page_num (fetch_start ''dividend''))
                                          ''timed out''),
                                 Sleep 2000]) [0..<2])
           @ [ApiGet base_url (make_params ''600036'' ''2022-06-15'' ''2022-12-31''
                                 (fetch_start ''dividend''))]\<rparr>)"
    by blast
  from th2 hu have r2: "fetch_loop (Suc 2 + 0) undecodable_session ''600036'' ''2022-06-15''
      ''2022-12-31'' (fetch_start ''dividend'')
    = Some ((fetch_start ''dividend'')\<lparr>sent := sent (fetch_start ''dividend'') + 2 + 1,
         page_num := page_num (fetch_start ''dividend'') + 2,
         trace := trace (fetch_start ''dividend'')
           @ concat (map (\<lambda>i. [ApiGet base_url (make_params ''600036'' ''2022-06-15''
                                    ''2022-12-31''
                                    ((fetch_start ''dividend'')
                                       \<lparr>page_num := page_num (fetch_start ''dividend'') + i\<rparr>)),
                                 Print (json_error_line (page_num (fetch_start ''dividend'') + i))])
                       [0..<2])
           @ [ApiGet base_url (make_params ''600036'' ''2022-06-15'' ''2022-12-31''
                                 ((fetch_start ''dividend'')
                                    \<lparr>page_num := page_num (fetch_start ''dividend'') + 2\<rparr>))]\<rparr>)"
    by blast
  have three: "Suc 2 + 0 = (3::nat)" by simp
  have a: "map_option (\<lambda>st. (all_announcements st, page_num st, sent st,
                        map pageNo (requests_of (trace st))))
        (fetch_all_announcements_paginated 3 failing_session ''600036'' ''2022-06-15''
           ''2022-12-31'' ''dividend'')
       = Some ([], 1, 3, [1, 1, 1])"
    unfolding fetch_all_announcements_paginated_def using r1 three
    by (simp add: fetch_start_def make_params_def upt_conv_Cons del: upt_Suc)
  have b: "map_option (\<lambda>st. (all_announcements st, page_num st, sent st,
                        map pageNo (requests_of (trace st))))
        (fetch_all_announcements_paginated 3 undecodable_session ''600036'' ''2022-06-15''
           ''2022-12-31'' ''dividend'')
       = Some ([], 3, 3, [1, 2, 3])"
    unfolding fetch_all_announcements_paginated_def using r2 three
    by (simp add: fetch_start_def make_params_def upt_conv_Cons del: upt_Suc)
  from f u a b show ?thesis by blast
qed

text \<open>
  C4. The request for page 1 carries the title filter, here \<open>dividend\<close>; the request for
  page 2 carries the TITLE of the last item of page 1 instead, because the inner loop
  assigns each item's TITLE to the variable \<open>title\<close> that holds the filter.
\<close>

theorem title_parameter_overwritten:
  "map_option (\<lambda>st. map (\<lambda>p. (pageNo p, TITLE p)) (requests_of (trace st)))
     (fetch_all_announcements_paginated 2 (\<lambda>n. if n = 0 then Json (body_of [[q2_item]]) else Json (body_of []))
        ''600036'' ''2022-06-15'' ''2022-12-31'' ''dividend'')
   = Some [(1, PyStr ''dividend''), (2, PyStr ''Q2: Report'')]"
  by (simp add: fetch_all_announcements_paginated_def fetch_start_def numeral_2_eq_2
        fetch_iteration_def Let_def body_of_def current_page_data_of_def payload_empty_def
        inner_lists_def q2_item_def item_get_def make_params_def)

section \<open>Properties of the date ranges\<close>

lemma char_of_digits:
  "char_of (48::nat) = CHR ''0''" "char_of (49::nat) = CHR ''1''" "char_of (50::nat) = CHR ''2''"
  "char_of (51::nat) = CHR ''3''" "char_of (52::nat) = CHR ''4''" "char_of (53::nat) = CHR ''5''"
  "char_of (54::nat) = CHR ''6''" "char_of (55::nat) = CHR ''7''" "char_of (56::nat) = CHR ''8''"
  "char_of (57::nat) = CHR ''9''"
  by code_simp+

lemma strftime_example:
  "strftime \<lparr>year = 2022, month = 6, day = 15\<rparr> = ''2022-06-15''"
  by (simp add: strftime_def str_nat.simps digit_char_def char_of_digits)

lemmas date_eval = strptime_def is_digit_def digit_val_def datetime_def valid_date_def
  days_in_month_def is_leap_def date_le_def date_less_def date_min_def add_one_day_def
  strftime_def str_nat.simps digit_char_def char_of_digits generate_yearly_date_ranges_def Let_def

lemma date_le_antisym: "date_le a b \<Longrightarrow> date_le b a \<Longrightarrow> a = b"
  by (auto simp: date_le_def)

lemma yearly_loop_reversed:
  "date_less end_date start_date \<Longrightarrow> yearly_loop start_date end_date ranges = Inr ranges"
  using date_le_antisym [of start_date end_date]
  by (subst yearly_loop.simps) (auto simp: date_less_def)

text \<open>
  C3 (as amended). When both strings parse and the start is after the end, the function
  returns the empty list: the loop body never runs and nothing is raised.
\<close>

theorem reversed_range_returns_nothing:
  "strptime start_date_str = Inr start_date \<Longrightarrow> strptime end_date_str = Inr end_date \<Longrightarrow>
   date_less end_date start_date \<Longrightarrow>
   generate_yearly_date_ranges start_date_str end_date_str = Inr []"
  by (simp add: generate_yearly_date_ranges_def yearly_loop_reversed)

lemma strptime_2024: "strptime ''2024-01-01'' = Inr \<lparr>year = 2024, month = 1, day = 1\<rparr>"
  by (simp add: strptime_def is_digit_def digit_val_def datetime_def valid_date_def
        days_in_month_def)

lemma strptime_2023: "strptime ''2023-01-01'' = Inr \<lparr>year = 2023, month = 1, day = 1\<rparr>"
  by (simp add: strptime_def is_digit_def digit_val_def datetime_def valid_date_def
        days_in_month_def)

text \<open>The start 2024-01-01 and the end 2023-01-01.\<close>

theorem reversed_range_returns_nothing_witness:
  "strptime ''2024-01-01'' = Inr \<lparr>year = 2024, month = 1, day = 1\<rparr>
   \<and> strptime ''2023-01-01'' = Inr \<lparr>year = 2023, month = 1, day = 1\<rparr>
   \<and> date_less \<lparr>year = 2023, month = 1, day = 1\<rparr> \<lparr>year = 2024, month = 1, day = 1\<rparr>
   \<and> generate_yearly_date_ranges ''2024-01-01'' ''2023-01-01'' = Inr []"
proof -
  have less: "date_less \<lparr>year = 2023, month = 1, day = 1\<rparr> \<lparr>year = 2024, month = 1, day = 1\<rparr>"
    by (simp add: date_less_def date_le_def)
  from reversed_range_returns_nothing [OF strptime_2024 strptime_2023 less]
    strptime_2024 strptime_2023 less
  show ?thesis by blast
qed

text \<open>
  C3 as stated fails: for the start 2024-06-15 and the end 2024-02-10 the function
  returns normally, with the empty list.
\<close>

theorem reversed_range_is_no_error:
  "generate_yearly_date_ranges ''2024-06-15'' ''2024-02-10'' = Inr []"
  by (simp add: date_eval yearly_loop.simps)

text \<open>
  C2. For a range that ends in the year 9999 the function raises: after the last range is
  appended it still computes the day after 9999-12-31, which no \<open>datetime\<close> can hold.
\<close>

theorem year_9999_overflows:
  "generate_yearly_date_ranges ''9999-01-01'' ''9999-12-31'' = Inl OverflowError"
  by (simp add: date_eval yearly_loop.simps)

text \<open>The example of the specification.\<close>

lemma example_split:
  "generate_yearly_date_ranges ''2022-06-15'' ''2024-02-10''
     = Inr [(''2022-06-15'', ''2022-12-31''), (''2023-01-01'', ''2023-12-31''),
            (''2024-01-01'', ''2024-02-10'')]"
  by (simp add: date_eval yearly_loop.simps)

subsection \<open>Ranges that end before the year 9999\<close>

lemma strptime_valid: "strptime s = Inr d \<Longrightarrow> valid_date d"
  by (auto simp: strptime_def datetime_def Let_def
        split: list.splits option.splits if_splits prod.splits)

lemma year_end_ok:
  "1 \<le> y \<Longrightarrow> y \<le> 9999 \<Longrightarrow> datetime y 12 31 = Inr \<lparr>year = y, month = 12, day = 31\<rparr>"
  by (simp add: datetime_def valid_date_def days_in_month_def)

lemma add_one_day_year_end:
  "y < 9999 \<Longrightarrow>
   add_one_day \<lparr>year = y, month = 12, day = 31\<rparr> = Inr \<lparr>year = y + 1, month = 1, day = 1\<rparr>"
  by (simp add: add_one_day_def days_in_month_def)

lemma days_in_month_le: "days_in_month y m \<le> 31"
  by (simp add: days_in_month_def)

lemma date_min_same_year:
  "valid_date ed \<Longrightarrow> year ed = y \<Longrightarrow> date_min \<lparr>year = y, month = 12, day = 31\<rparr> ed = ed"
  using days_in_month_le [of "year ed" "month ed"]
  by (cases ed) (auto simp: date_min_def date_less_def date_le_def valid_date_def)

lemma date_min_later_year:
  "y < year ed \<Longrightarrow>
   date_min \<lparr>year = y, month = 12, day = 31\<rparr> ed = \<lparr>year = y, month = 12, day = 31\<rparr>"
  by (auto simp: date_min_def date_less_def date_le_def)

lemma yearly_loop_stop: "\<not> date_le c ed \<Longrightarrow> yearly_loop c ed acc = Inr acc"
  by (subst yearly_loop.simps) simp

lemma yearly_loop_step:
  assumes "date_le cur ed" and "1 \<le> year cur" and "year cur < 9999"
  shows "yearly_loop cur ed acc
           = yearly_loop \<lparr>year = year cur + 1, month = 1, day = 1\<rparr> ed
               (acc @ [(strftime cur,
                        strftime (date_min \<lparr>year = year cur, month = 12, day = 31\<rparr> ed))])"
proof -
  have "year cur \<le> 9999" using assms(3) by simp
  from year_end_ok [OF assms(2) this] add_one_day_year_end [OF assms(3)] assms(1)
  show ?thesis
    by (subst yearly_loop.simps) simp
qed

lemma splits_by_year_year_le: "splits_by_year s rs e \<Longrightarrow> year s \<le> year e"
proof (induction rs arbitrary: s)
  case Nil
  then show ?case by simp
next
  case (Cons q qs)
  obtain a b where q: "q = (a, b)" by (cases q)
  show ?case
  proof (cases "qs = []")
    case True
    with Cons.prems q show ?thesis by (auto simp: date_le_def)
  next
    case False
    with Cons.prems q have "splits_by_year \<lparr>year = year s + 1, month = 1, day = 1\<rparr> qs e"
      by auto
    from Cons.IH [OF this] show ?thesis by simp
  qed
qed

lemma yearly_loop_splits:
  "valid_date cur \<Longrightarrow> valid_date ed \<Longrightarrow> date_le cur ed \<Longrightarrow> year ed < 9999 \<Longrightarrow>
   n = year ed - year cur \<Longrightarrow>
   \<exists>rs. yearly_loop cur ed acc = Inr (acc @ map (\<lambda>(a, b). (strftime a, strftime b)) rs)
        \<and> splits_by_year cur rs ed"
proof (induction n arbitrary: cur acc)
  case 0
  then have same: "year cur = year ed" by (auto simp: date_le_def)
  have y: "1 \<le> year cur" "year cur \<le> 9999" "year cur < 9999"
    using "0.prems" same by (auto simp: valid_date_def)
  have stop: "\<not> date_le \<lparr>year = year cur + 1, month = 1, day = 1\<rparr> ed"
    using same by (simp add: date_le_def)
  have "yearly_loop cur ed acc = Inr (acc @ [(strftime cur, strftime ed)])"
    using yearly_loop_step [OF "0.prems"(3) y(1) y(3), of acc]
      yearly_loop_stop [OF stop, of "acc @ [(strftime cur, strftime ed)]"]
      date_min_same_year [OF "0.prems"(2) same [symmetric]]
    by simp
  moreover have "splits_by_year cur [(cur, ed)] ed"
    using "0.prems"(3) same by simp
  ultimately show ?case
    by (intro exI [of _ "[(cur, ed)]"]) simp
next
  case (Suc n)
  then have lt: "year cur < year ed" by simp
  have y: "1 \<le> year cur" "year cur \<le> 9999" "year cur < 9999"
    using Suc.prems lt by (auto simp: valid_date_def)
  let ?ye = "\<lparr>year = year cur, month = 12, day = 31\<rparr>"
  let ?nx = "\<lparr>year = year cur + 1, month = 1, day = 1\<rparr>"
  have vnx: "valid_date ?nx"
    using y by (simp add: valid_date_def days_in_month_def)
  have lenx: "date_le ?nx ed"
    using lt Suc.prems(2) by (auto simp: date_le_def valid_date_def)
  have n: "n = year ed - year ?nx"
    using Suc.prems(5) by simp
  from Suc.IH [OF vnx Suc.prems(2) lenx Suc.prems(4) n,
      of "acc @ [(strftime cur, strftime ?ye)]"]
  obtain rs where rs:
    "yearly_loop ?nx ed (acc @ [(strftime cur, strftime ?ye)])
       = Inr ((acc @ [(strftime cur, strftime ?ye)]) @ map (\<lambda>(a, b). (strftime a, strftime b)) rs)"
    "splits_by_year ?nx rs ed"
    by blast
  have step: "yearly_loop cur ed acc = yearly_loop ?nx ed (acc @ [(strftime cur, strftime ?ye)])"
    using yearly_loop_step [OF Suc.prems(3) y(1) y(3), of acc] date_min_later_year [OF lt]
    by simp
  have ne: "rs \<noteq> []"
    using rs(2) by (cases rs) auto
  have le: "date_le cur ?ye"
    using Suc.prems(1) days_in_month_le [of "year cur" "month cur"]
    by (auto simp: date_le_def valid_date_def)
  have sp: "splits_by_year cur ((cur, ?ye) # rs) ed"
    using rs(2) ne le by simp
  have eq: "yearly_loop cur ed acc
              = Inr (acc @ map (\<lambda>(a, b). (strftime a, strftime b)) ((cur, ?ye) # rs))"
    using step rs(1) by simp
  from eq sp show ?case by blast
qed

lemma date_le_trans: "date_le a b \<Longrightarrow> date_le b c \<Longrightarrow> date_le a c"
  unfolding date_le_def by linarith

lemma year_end_le_next: 
  "date_le \<lparr>year = y, month = 12, day = 31\<rparr> \<lparr>year = y + 1, month = 1, day = 1\<rparr>"
  by (simp add: date_le_def)

lemma year_end_or_next:
  assumes "valid_date d"
  shows "date_le d \<lparr>year = y, month = 12, day = 31\<rparr>
         \<or> date_le \<lparr>year = y + 1, month = 1, day = 1\<rparr> d"
proof (cases "year d \<le> y")
  case True
  with assms days_in_month_le [of "year d" "month d"] show ?thesis
    unfolding date_le_def valid_date_def by simp linarith
next
  case False
  with assms show ?thesis
    unfolding date_le_def valid_date_def by simp linarith
qed

lemma not_both_sides:
  "\<not> (date_le d \<lparr>year = y, month = 12, day = 31\<rparr>
       \<and> date_le \<lparr>year = y + 1, month = 1, day = 1\<rparr> d)"
  unfolding date_le_def by simp linarith

lemma splits_by_year_covers:
  "splits_by_year s rs e \<Longrightarrow> valid_date d \<Longrightarrow>
   (date_le s d \<and> date_le d e) = (\<exists>(a, b) \<in> set rs. date_le a d \<and> date_le d b)"
proof (induction rs arbitrary: s)
  case Nil
  then show ?case by simp
next
  case (Cons r rs)
  obtain a b where r: "r = (a, b)" by (cases r)
  show ?case
  proof (cases "rs = []")
    case True
    with Cons.prems r show ?thesis by simp
  next
    case False
    let ?ye = "\<lparr>year = year s, month = 12, day = 31\<rparr>"
    let ?nx = "\<lparr>year = year s + 1, month = 1, day = 1\<rparr>"
    from Cons.prems r False have f: "a = s" "b = ?ye" "splits_by_year ?nx rs e"
      by auto
    have IH: "(date_le ?nx d \<and> date_le d e) = (\<exists>(a, b) \<in> set rs. date_le a d \<and> date_le d b)"
      by (rule Cons.IH [OF f(3) Cons.prems(2)])
    obtain c c' rs' where rs: "rs = (c, c') # rs'"
      using False by (cases rs) auto
    with f(3) have c: "c = ?nx" "date_le c c'" "year c = year c'" by auto
    have nxe: "date_le ?nx e"
    proof (cases "rs' = []")
      case True
      with f(3) rs c show ?thesis by simp
    next
      case False
      with f(3) rs have "c' = \<lparr>year = year c, month = 12, day = 31\<rparr>"
        and sp: "splits_by_year \<lparr>year = year c + 1, month = 1, day = 1\<rparr> rs' e" by auto
      from splits_by_year_year_le [OF sp] c(1) show ?thesis by (simp add: date_le_def)
    qed
    from Cons.prems(1) r f(1,2) have sye: "date_le s ?ye" by simp
    have split: "(date_le s d \<and> date_le d e)
                 = ((date_le s d \<and> date_le d ?ye) \<or> (date_le ?nx d \<and> date_le d e))"
      using year_end_or_next [OF Cons.prems(2), of "year s"] year_end_le_next [of "year s"]
        nxe sye date_le_trans
      by blast
    have "(\<exists>(a, b) \<in> set (r # rs). date_le a d \<and> date_le d b)
          = ((date_le s d \<and> date_le d ?ye) \<or> (\<exists>(a, b) \<in> set rs. date_le a d \<and> date_le d b))"
      using r f(1,2) by simp
    with split IH show ?thesis by simp
  qed
qed

text \<open>
  For an end before the year 9999, and a start not after the end, the function returns
  ranges that split the days from the start to the end by calendar year, and a date lies
  between the start and the end exactly when it lies in one of the ranges.
\<close>

lemma ranges_split_the_interval:
  assumes "strptime start_date_str = Inr sd" and "strptime end_date_str = Inr ed"
    and "date_le sd ed" and "year ed < 9999"
  shows "\<exists>rs. generate_yearly_date_ranges start_date_str end_date_str
                = Inr (map (\<lambda>(a, b). (strftime a, strftime b)) rs)
             \<and> splits_by_year sd rs ed
             \<and> (\<forall>d. valid_date d \<longrightarrow>
                   (date_le sd d \<and> date_le d ed) = (\<exists>(a, b) \<in> set rs. date_le a d \<and> date_le d b))"
proof -
  from yearly_loop_splits [OF strptime_valid [OF assms(1)] strptime_valid [OF assms(2)]
      assms(3,4) refl, of "[]"]
  obtain rs where rs: "yearly_loop sd ed [] = Inr (map (\<lambda>(a, b). (strftime a, strftime b)) rs)"
    "splits_by_year sd rs ed"
    by auto
  have "generate_yearly_date_ranges start_date_str end_date_str
                = Inr (map (\<lambda>(a, b). (strftime a, strftime b)) rs)"
    using assms(1,2) rs(1) by (simp add: generate_yearly_date_ranges_def)
  with rs(2) splits_by_year_covers [OF rs(2)] show ?thesis by blast
qed

section \<open>Properties of the file names and of the batch\<close>

lemma clean_filename_filter: "clean_filename t = filter (\<lambda>c. c \<notin> illegal_chars) t"
  by (induction t) simp_all

lemma basename_path_join:
  assumes "CHR ''/'' \<notin> set b" and "b \<noteq> []"
  shows "basename (path_join a b) = b"
proof -
  have hd: "hd b \<noteq> CHR ''/''"
    using assms by (cases b) auto
  have tw: "takeWhile (\<lambda>c. c \<noteq> CHR ''/'') (rev b @ r) = rev b @ takeWhile (\<lambda>c. c \<noteq> CHR ''/'') r" for r
    using assms(1) by (intro takeWhile_append2) auto
  show ?thesis
  proof (cases "a = [] \<or> last a = CHR ''/''")
    case True
    then have "takeWhile (\<lambda>c. c \<noteq> CHR ''/'') (rev a) = []"
      by (cases a rule: rev_cases) auto
    with True hd tw [of "rev a"] show ?thesis
      by (simp add: basename_def path_join_def)
  next
    case False
    with hd tw [of "CHR ''/'' # rev a"] show ?thesis
      by (simp add: basename_def path_join_def)
  qed
qed

lemma pdf_name_clean:
  "set (clean_filename t @ ''.pdf'') \<inter> illegal_chars = {}"
  by (auto simp: clean_filename_filter illegal_chars_def)

lemma slash_illegal: "CHR ''/'' \<in> illegal_chars"
  by (simp add: illegal_chars_def)

lemma basename_destination:
  "basename (destination target_dir ann) = clean_filename (title ann) @ ''.pdf''"
  unfolding destination_def
proof (rule basename_path_join)
  show "CHR ''/'' \<notin> set (clean_filename (title ann) @ ''.pdf'')"
    using pdf_name_clean [of "title ann"] slash_illegal by blast
  show "clean_filename (title ann) @ ''.pdf'' \<noteq> []" by simp
qed

lemma batch_loop_eq:
  "batch_loop dl i n target_dir anns =
     concat (map (\<lambda>(j, ann).
                    Print (processing_line j n (title ann))
                    # fst (download_pdf_hybrid (dl j) (url ann) (destination target_dir ann))
                    @ [Print (snd (download_pdf_hybrid (dl j) (url ann)
                                     (destination target_dir ann)))])
                 (zip [i..<i + length anns] anns))"
proof (induction anns arbitrary: i)
  case Nil
  then show ?case by simp
next
  case (Cons ann rest)
  have up: "[i..<i + length (ann # rest)] = i # [Suc i..<Suc i + length rest]"
    by (subst upt_rec) simp
  show ?case
    unfolding up
    by (simp add: Cons.IH [of "Suc i"] Let_def case_prod_beta)
qed

text \<open>
  C9. \<open>clean_filename\<close> keeps, in order, exactly the characters that are none of the nine of
  the class, so its result has none of them; the batch hands each announcement, in order,
  to \<open>download_pdf_hybrid\<close> with the path \<open>target_dir\<close> joined with the cleaned title and
  \<open>.pdf\<close>; and the file name component of that path is the cleaned title and \<open>.pdf\<close>, which
  has none of the nine characters.
\<close>

theorem destination_is_cleaned_title:
  "clean_filename t = filter (\<lambda>c. c \<notin> illegal_chars) t
   \<and> set (clean_filename t) \<inter> illegal_chars = {}
   \<and> batch_loop dl i n target_dir anns =
       concat (map (\<lambda>(j, ann).
                      Print (processing_line j n (title ann))
                      # fst (download_pdf_hybrid (dl j) (url ann)
                               (path_join target_dir (clean_filename (title ann) @ ''.pdf'')))
                      @ [Print (snd (download_pdf_hybrid (dl j) (url ann)
                               (path_join target_dir (clean_filename (title ann) @ ''.pdf''))))])
                   (zip [i..<i + length anns] anns))
   \<and> basename (path_join target_dir (clean_filename t @ ''.pdf'')) = clean_filename t @ ''.pdf''
   \<and> set (basename (path_join target_dir (clean_filename t @ ''.pdf''))) \<inter> illegal_chars = {}"
proof (intro conjI)
  show "clean_filename t = filter (\<lambda>c. c \<notin> illegal_chars) t"
    by (rule clean_filename_filter)
  show "set (clean_filename t) \<inter> illegal_chars = {}"
    by (auto simp: clean_filename_filter)
  show "batch_loop dl i n target_dir anns =
       concat (map (\<lambda>(j, ann).
                      Print (processing_line j n (title ann))
                      # fst (download_pdf_hybrid (dl j) (url ann)
                               (path_join target_dir (clean_filename (title ann) @ ''.pdf'')))
                      @ [Print (snd (download_pdf_hybrid (dl j) (url ann)
                               (path_join target_dir (clean_filename (title ann) @ ''.pdf''))))])
                   (zip [i..<i + length anns] anns))"
    using batch_loop_eq [of dl i n target_dir anns] by (simp add: destination_def)
  have b: "basename (path_join target_dir (clean_filename t @ ''.pdf'')) = clean_filename t @ ''.pdf''"
    using basename_destination [of target_dir "\<lparr>title = t, url = []\<rparr>"]
    by (simp add: destination_def)
  then show "basename (path_join target_dir (clean_filename t @ ''.pdf'')) = clean_filename t @ ''.pdf''" .
  from b show "set (basename (path_join target_dir (clean_filename t @ ''.pdf''))) \<inter> illegal_chars = {}"
    using pdf_name_clean [of t] by simp
qed

text \<open>A title with a colon, angle brackets and a slash.\<close>

theorem destination_is_cleaned_title_witness:
  "clean_filename ''Q2: Report <a/b>'' = ''Q2 Report ab''
   \<and> destination ''downloads/out'' \<lparr>title = ''Q2: Report'', url = ''https://static.sse.com.cn/c.pdf''\<rparr>
       = ''downloads/out/Q2 Report.pdf''
   \<and> basename (path_join ''downloads/out'' (clean_filename ''Q2: Report'' @ ''.pdf''))
       = ''Q2 Report.pdf''"
proof -
  have a: "clean_filename ''Q2: Report <a/b>'' = ''Q2 Report ab''"
    using destination_is_cleaned_title [of "''Q2: Report <a/b>''", THEN conjunct1]
    by (simp add: illegal_chars_def)
  have c: "clean_filename ''Q2: Report'' = ''Q2 Report''"
    using destination_is_cleaned_title [of "''Q2: Report''", THEN conjunct1]
    by (simp add: illegal_chars_def)
  have b: "destination ''downloads/out'' \<lparr>title = ''Q2: Report'', url = ''https://static.sse.com.cn/c.pdf''\<rparr>
       = ''downloads/out/Q2 Report.pdf''"
    by (simp add: destination_def path_join_def illegal_chars_def)
  have d: "basename (path_join ''downloads/out'' (clean_filename ''Q2: Report'' @ ''.pdf''))
       = ''Q2 Report.pdf''"
  proof -
    have "basename (path_join ''downloads/out'' (clean_filename ''Q2: Report'' @ ''.pdf''))
            = clean_filename ''Q2: Report'' @ ''.pdf''"
      using destination_is_cleaned_title
        [of "''Q2: Report''" "\<lambda>n. download_ok" 0 0 "''downloads/out''" "[]"]
      by blast
    then show ?thesis by (simp add: illegal_chars_def)
  qed
  from a b d show ?thesis by blast
qed

text \<open>
  C10. For the empty list the batch makes one call, the print of the notice, and returns:
  no directory is made, no navigation or request is sent and no file is opened.
\<close>

theorem empty_batch_touches_nothing:
  "batch_download_sequential w [] target_dir = ([Print nothing_to_download_text], Returns ())"
  by (simp add: batch_download_sequential_def)

text \<open>In the example world: nothing but the notice.\<close>

theorem empty_batch_touches_nothing_witness:
  "batch_download_sequential world_with_cookie [] ''downloads/out''
     = ([Print nothing_to_download_text], Returns ())
   \<and> filter fetch_or_download (fst (batch_download_sequential world_with_cookie [] ''downloads/out'')) = []
   \<and> navigations_of (fst (batch_download_sequential world_with_cookie [] ''downloads/out'')) = []"
  using empty_batch_touches_nothing [of world_with_cookie "''downloads/out''"]
  by simp

section \<open>Properties of the downloader\<close>

lemma navigations_of_append:
  "navigations_of (xs @ ys) = navigations_of xs @ navigations_of ys"
  by (induction xs rule: navigations_of.induct) simp_all
















section \<open>Properties of the main program\<close>

lemma filter_fetch_or_download_header:
  "filter fetch_or_download (main_header w c s e t d) = []"
  by (simp add: main_header_def)

lemma navigations_of_header: "navigations_of (main_header w c s e t d) = []"
  by (simp add: main_header_def)

text \<open>
  C8. When the browser starts, the first navigation returns and the browser then reports
  no cookie, the \<open>try\<close> block ends with the exception the program raises for it; the run
  prints it and closes the browser. No request to the listing endpoint or the document host
  is sent, no directory is made, no file is opened, and the only navigation is the first.
  This holds with any fuel, so the run ends.
\<close>

theorem no_cookies_is_fatal:
  assumes "chrome w = Returns ()" and "entry_navigate w = Returns ()"
    and "entry_cookies w = Returns []"
  shows "main_try fuel w security_code start_date end_date t target_dir
           = Some ([ChromeStart, Print visiting_text, DriverGet entry_url, Sleep 5000, GetCookies],
                   Some (Exception no_initial_cookie_text), True)
       \<and> main fuel w security_code start_date end_date t target_dir
           = Some (main_header w security_code start_date end_date t target_dir
                   @ [ChromeStart, Print visiting_text, DriverGet entry_url, Sleep 5000, GetCookies,
                      PrintFatal (Exception no_initial_cookie_text),
                      DriverQuit, Print browser_closed_text])
       \<and> map_option (filter fetch_or_download)
             (main fuel w security_code start_date end_date t target_dir) = Some []
       \<and> map_option navigations_of
             (main fuel w security_code start_date end_date t target_dir) = Some [entry_url]"
proof -
  have a: "main_try fuel w security_code start_date end_date t target_dir
           = Some ([ChromeStart, Print visiting_text, DriverGet entry_url, Sleep 5000, GetCookies],
                   Some (Exception no_initial_cookie_text), True)"
    using assms by (simp add: main_try_def)
  then have b: "main fuel w security_code start_date end_date t target_dir
           = Some (main_header w security_code start_date end_date t target_dir
                   @ [ChromeStart, Print visiting_text, DriverGet entry_url, Sleep 5000, GetCookies,
                      PrintFatal (Exception no_initial_cookie_text),
                      DriverQuit, Print browser_closed_text])"
    by (simp add: main_def)
  from b have c: "map_option (filter fetch_or_download)
             (main fuel w security_code start_date end_date t target_dir) = Some []"
    by (simp add: filter_fetch_or_download_header)
  from b have d: "map_option navigations_of
             (main fuel w security_code start_date end_date t target_dir) = Some [entry_url]"
    by (simp add: navigations_of_append navigations_of_header)
  from a b c d show ?thesis by blast
qed

text \<open>The example world in which the browser reports no cookie.\<close>

theorem no_cookies_is_fatal_witness:
  "chrome world_without_cookie = Returns ()
   \<and> entry_navigate world_without_cookie = Returns ()
   \<and> entry_cookies world_without_cookie = Returns []
   \<and> main_try 0 world_without_cookie ''600036'' ''2022-06-15'' ''2023-02-01'' [] ''downloads/out''
       = Some ([ChromeStart, Print visiting_text, DriverGet entry_url, Sleep 5000, GetCookies],
               Some (Exception no_initial_cookie_text), True)
   \<and> map_option (filter fetch_or_download)
        (main 0 world_without_cookie ''600036'' ''2022-06-15'' ''2023-02-01'' [] ''downloads/out'')
       = Some []
   \<and> map_option navigations_of
        (main 0 world_without_cookie ''600036'' ''2022-06-15'' ''2023-02-01'' [] ''downloads/out'')
       = Some [entry_url]"
proof -
  have h: "chrome world_without_cookie = Returns ()"
    "entry_navigate world_without_cookie = Returns ()"
    "entry_cookies world_without_cookie = Returns []"
    by (simp_all add: world_without_cookie_def world_with_cookie_def)
  from no_cookies_is_fatal [OF h, of 0 "''600036''" "''2022-06-15''" "''2023-02-01''" "[]"
      "''downloads/out''"] h
  show ?thesis by blast
qed

end
